theory Spec2Isabelle
  imports Main "HOL-Library.Char_ord" "HOL-Library.List_Lexorder" "HOL-Library.AList"
begin

section \<open>The request-review action: a shallow embedding\<close>

text \<open>
  The action consists of a helper module (\<^verbatim>\<open>utils.js\<close>), a setup sequence and a request
  sequence. The embedding keeps what the functions return, the errors they throw (with
  their messages), the subprocesses they start, the forge responses they inspect, the
  state they persist and the warning counter. Calls that only print to the job log
  (\<^verbatim>\<open>core.info\<close>, \<^verbatim>\<open>core.startGroup\<close>, \<^verbatim>\<open>core.endGroup\<close>) have no other effect and are
  left out, with one exception: an argument of such a call whose evaluation throws is
  kept, since the throw is a result.

  JavaScript strings are modelled as \<^typ>\<open>string\<close>; \<^verbatim>\<open>toLowerCase\<close> is modelled on the
  ASCII letters.
\<close>

subsection \<open>Errors and strings\<close>

datatype error =
    Error string
  | ReferenceError string
  | TypeError string
  | SyntaxError string

fun message :: "error \<Rightarrow> string" where
  "message (Error m) = m"
| "message (ReferenceError m) = m"
| "message (TypeError m) = m"
| "message (SyntaxError m) = m"

definition is_digit :: "char \<Rightarrow> bool" where
  "is_digit c = (CHR ''0'' \<le> c \<and> c \<le> CHR ''9'')"

definition digit_char :: "nat \<Rightarrow> char" where
  "digit_char d = ''0123456789'' ! d"

text \<open>Decimal rendering of an integer, most significant digit first.\<close>

fun show_nat :: "nat \<Rightarrow> string" where
  "show_nat n = (if n < 10 then [digit_char n] else show_nat (n div 10) @ [digit_char (n mod 10)])"

declare show_nat.simps [simp del]

definition show_int :: "int \<Rightarrow> string" where
  "show_int i = (if i < 0 then CHR ''-'' # show_nat (nat (- i)) else show_nat (nat i))"

definition lower_char :: "char \<Rightarrow> char" where
  "lower_char c =
     (case map_of (zip ''ABCDEFGHIJKLMNOPQRSTUVWXYZ'' ''abcdefghijklmnopqrstuvwxyz'') c of
        Some l \<Rightarrow> l
      | None \<Rightarrow> c)"

definition toLowerCase :: "string \<Rightarrow> string" where
  "toLowerCase s = map lower_char s"

definition startsWith :: "string \<Rightarrow> string \<Rightarrow> bool" where
  "startsWith s p = (take (length p) s = p)"

text \<open>\<^verbatim>\<open>s.split(sep)\<close> for a one-character separator: never empty, \<^verbatim>\<open>''.split('/')\<close> is \<^verbatim>\<open>['']\<close>.\<close>

fun str_split :: "char \<Rightarrow> string \<Rightarrow> string list" where
  "str_split sep [] = [[]]"
| "str_split sep (c # cs) =
     (if c = sep then [] # str_split sep cs
      else (c # hd (str_split sep cs)) # tl (str_split sep cs))"

text \<open>\<^verbatim>\<open>xs.join(sep)\<close>.\<close>

fun join :: "string \<Rightarrow> string list \<Rightarrow> string" where
  "join sep [] = []"
| "join sep [x] = x"
| "join sep (x # y # ys) = x @ sep @ join sep (y # ys)"

subsection \<open>Numbers\<close>

text \<open>
  The unary \<^verbatim>\<open>+\<close> applied to a string of decimal digits yields a Number, an IEEE double:
  the value of the digits when it is below \<open>2^53\<close>, otherwise that value rounded to 53
  significant bits (ties to even), and \<^verbatim>\<open>Infinity\<close> from \<open>2^1024\<close> on.
\<close>

datatype js_number = Num nat | Infinity

fun bitlen :: "nat \<Rightarrow> nat" where
  "bitlen n = (if n = 0 then 0 else Suc (bitlen (n div 2)))"

declare bitlen.simps [simp del]

definition to_double :: "nat \<Rightarrow> js_number" where
  "to_double n =
     (if n < 2 ^ 53 then Num n
      else let e = bitlen n - 53;
               q = n div 2 ^ e;
               r = n mod 2 ^ e;
               h = 2 ^ (e - 1);
               q' = (if h < r \<or> (r = h \<and> odd q) then q + 1 else q);
               v = q' * 2 ^ e
           in if 2 ^ 1024 \<le> v then Infinity else Num v)"

definition digit_value :: "char \<Rightarrow> nat" where
  "digit_value c = of_char c - 48"

definition digits_value :: "string \<Rightarrow> nat" where
  "digits_value ds = foldl (\<lambda>n c. 10 * n + digit_value c) 0 ds"

definition unary_plus :: "string \<Rightarrow> js_number" where
  "unary_plus ds = to_double (digits_value ds)"

subsection \<open>Reference parsing (\<^verbatim>\<open>utils.js\<close>: \<^verbatim>\<open>checkRequestType\<close>, \<^verbatim>\<open>parseProject\<close>)\<close>

definition testDir :: string where
  "testDir = ''project-tests''"

definition mainDir :: string where
  "mainDir = ''project-main''"

definition usage :: string where
  "usage = ''Review request types must start with \"s\" for synchronous code reviews (default type) or \"a\" for pre-approved asynchronous code reviews.''"

text \<open>The argument is what \<^verbatim>\<open>core.getInput('type')\<close> returned.\<close>

definition checkRequestType :: "string \<Rightarrow> error + string" where
  "checkRequestType type =
     (case type of
        [] \<Rightarrow> Inl (Error (''Missing required review request type. '' @ usage))
      | c # _ \<Rightarrow>
          if c = CHR ''s'' \<or> c = CHR ''S'' then Inr ''Synchronous''
          else if c = CHR ''a'' \<or> c = CHR ''A'' then Inr ''Asynchronous''
          else Inl (Error (''The value \"'' @ type @ ''\" is not a valid code review type. '' @ usage)))"

text \<open>
  The regular expression \<^verbatim>\<open>/^v([1-4])\.(\d+)\.(\d+)$/\<close> as a matcher that returns the
  three groups. The digit runs cannot contain the dot that follows them, so the greedy
  \<^verbatim>\<open>\d+\<close> takes the longest run of digits.
\<close>

definition match_version :: "string \<Rightarrow> (string \<times> string \<times> string) option" where
  "match_version s =
     (case s of
        v # p # dot # rest \<Rightarrow>
          if v = CHR ''v'' \<and> p \<in> set ''1234'' \<and> dot = CHR ''.'' then
            (let r = takeWhile is_digit rest; rest' = dropWhile is_digit rest
             in (case rest' of
                  [] \<Rightarrow> None
                | d # q \<Rightarrow>
                    if d = CHR ''.'' \<and> r \<noteq> [] \<and> q \<noteq> [] \<and> list_all is_digit q
                    then Some ([p], r, q) else None))
          else None
      | _ \<Rightarrow> None)"

record repo_context =
  owner :: string
  repo :: string

record details =
  d_type :: string
  d_owner :: string
  d_mainRepo :: string
  d_testRepo :: string
  d_project :: js_number
  d_reviews :: js_number
  d_patches :: js_number
  d_version :: string

definition parseProject :: "string \<Rightarrow> repo_context \<Rightarrow> string \<Rightarrow> error + details" where
  "parseProject type context ref =
     (case checkRequestType type of
        Inl e \<Rightarrow> Inl e
      | Inr t \<Rightarrow>
          let tokens = str_split CHR ''/'' ref;
              version = last tokens
          in (case match_version version of
               Some (g1, g2, g3) \<Rightarrow>
                 Inr \<lparr> d_type = t,
                       d_owner = owner context,
                       d_mainRepo = owner context @ ''/'' @ repo context,
                       d_testRepo = owner context @ ''/'' @ testDir,
                       d_project = unary_plus g1,
                       d_reviews = unary_plus g2,
                       d_patches = unary_plus g3,
                       d_version = version \<rparr>
             | None \<Rightarrow> Inl (Error (''Unable to parse project information from: '' @ ref))))"

subsection \<open>The world outside: subprocesses, saved state, warnings\<close>

text \<open>
  A subprocess started through \<^verbatim>\<open>exec.exec\<close>: the tool, its arguments and the working
  directory. The shell answers with an exit code, or the start itself is rejected (the
  tool is missing); the answer may depend on everything run before.
\<close>

record command =
  tool :: string
  args :: "string list"
  cwd :: "string option"

type_synonym shell = "command list \<Rightarrow> command \<Rightarrow> error + int"

record world =
  executed :: "command list"
  saved_state :: "string \<Rightarrow> string option"
  warnings :: nat

type_synonym 'a action = "world \<Rightarrow> (error + 'a) \<times> world"

definition ret :: "'a \<Rightarrow> 'a action" where
  "ret a w = (Inr a, w)"

definition throw :: "error \<Rightarrow> 'a action" where
  "throw e w = (Inl e, w)"

definition and_then :: "'a action \<Rightarrow> ('a \<Rightarrow> 'b action) \<Rightarrow> 'b action" where
  "and_then m f w = (case m w of (Inl e, w') \<Rightarrow> (Inl e, w') | (Inr a, w') \<Rightarrow> f a w')"

text \<open>The settings object of \<^verbatim>\<open>checkExec\<close>; an absent key is \<open>None\<close>.\<close>

record settings =
  param :: "string list option"
  title :: "string option"
  error :: "string option"
  chdir :: "string option"

definition checkExec :: "shell \<Rightarrow> string \<Rightarrow> settings \<Rightarrow> int action" where
  "checkExec sh command settings w =
     (let c = \<lparr> tool = command,
                 args = (case param settings of Some p \<Rightarrow> p | None \<Rightarrow> []),
                 cwd = chdir settings \<rparr>;
          w' = w\<lparr>executed := executed w @ [c]\<rparr>
      in case sh (executed w) c of
           Inl e \<Rightarrow> (Inl e, w')
         | Inr result \<Rightarrow>
             (case error settings of
                Some msg \<Rightarrow>
                  if result \<noteq> 0
                  then (Inl (Error (msg @ '' ('' @ show_int result @ '').'')), w')
                  else (Inr result, w')
              | None \<Rightarrow> (Inr result, w')))"

definition showWarning :: "world \<Rightarrow> world" where
  "showWarning w = w\<lparr>warnings := warnings w + 1\<rparr>"

subsection \<open>Saved state (\<^verbatim>\<open>utils.js\<close>: \<^verbatim>\<open>saveStates\<close>, \<^verbatim>\<open>restoreStates\<close>)\<close>

text \<open>
  The toolkit's \<^verbatim>\<open>core.saveState(name, value)\<close> and \<^verbatim>\<open>core.getState(name)\<close>: the runner
  keeps one string per name and hands it to the next phase; a name never saved reads as
  the empty string.
\<close>

definition saveState :: "string \<Rightarrow> string \<Rightarrow> world \<Rightarrow> world" where
  "saveState name v w = w\<lparr>saved_state := (saved_state w)(name \<mapsto> v)\<rparr>"

definition getState :: "world \<Rightarrow> string \<Rightarrow> string" where
  "getState w name = (case saved_state w name of Some v \<Rightarrow> v | None \<Rightarrow> [])"

text \<open>
  \<^verbatim>\<open>JSON.stringify\<close> on an array of strings. A string is quoted; the quote, the backslash
  and the control characters are escaped, every other character is copied.
\<close>

definition hex_digit :: "nat \<Rightarrow> char" where
  "hex_digit d = ''0123456789abcdef'' ! d"

definition quote_char :: "char \<Rightarrow> string" where
  "quote_char c =
     (if c = CHR 0x22 then [CHR 0x5C, CHR 0x22]
      else if c = CHR 0x5C then [CHR 0x5C, CHR 0x5C]
      else if c = CHR 0x08 then [CHR 0x5C, CHR ''b'']
      else if c = CHR 0x0C then [CHR 0x5C, CHR ''f'']
      else if c = CHR 0x0A then [CHR 0x5C, CHR ''n'']
      else if c = CHR 0x0D then [CHR 0x5C, CHR ''r'']
      else if c = CHR 0x09 then [CHR 0x5C, CHR ''t'']
      else if (of_char c :: nat) < 32
        then [CHR 0x5C, CHR ''u'', CHR ''0'', CHR ''0'',
              hex_digit (of_char c div 16), hex_digit (of_char c mod 16)]
      else [c])"

definition quote :: "string \<Rightarrow> string" where
  "quote s = [CHR 0x22] @ concat (map quote_char s) @ [CHR 0x22]"

definition JSON_stringify :: "string list \<Rightarrow> string" where
  "JSON_stringify ks = ''['' @ join '','' (map quote ks) @ '']''"

text \<open>
  \<^verbatim>\<open>JSON.parse\<close>, on the grammar of arrays of strings (white space between tokens, the
  escapes of JSON). \<open>None\<close> stands for a text outside that grammar. Characters are the
  code units below 256, so a \<^verbatim>\<open>\u\<close> escape of a larger code unit is outside as well.
\<close>

definition hex_value :: "char \<Rightarrow> nat option" where
  "hex_value c =
     map_of (zip ''0123456789abcdefABCDEF''
                 [0, 1, 2, 3, 4, 5, 6, 7, 8, 9, 10, 11, 12, 13, 14, 15, 10, 11, 12, 13, 14, 15]) c"

definition hex4 :: "char \<Rightarrow> char \<Rightarrow> char \<Rightarrow> char \<Rightarrow> char option" where
  "hex4 a b c d =
     (case (hex_value a, hex_value b, hex_value c, hex_value d) of
        (Some x3, Some x2, Some x1, Some x0) \<Rightarrow>
          if x3 = 0 \<and> x2 = 0 then Some (char_of (16 * x1 + x0)) else None
      | _ \<Rightarrow> None)"

definition escaped :: "char \<Rightarrow> char option" where
  "escaped e =
     map_of [(CHR 0x22, CHR 0x22), (CHR 0x5C, CHR 0x5C), (CHR ''/'', CHR ''/''),
             (CHR ''b'', CHR 0x08), (CHR ''f'', CHR 0x0C), (CHR ''n'', CHR 0x0A),
             (CHR ''r'', CHR 0x0D), (CHR ''t'', CHR 0x09)] e"

definition consed :: "char \<Rightarrow> (string \<times> string) option \<Rightarrow> (string \<times> string) option" where
  "consed c r = (case r of None \<Rightarrow> None | Some (s, rest) \<Rightarrow> Some (c # s, rest))"

text \<open>The characters of a string after its opening quote, up to the closing quote.\<close>

fun parse_chars :: "string \<Rightarrow> (string \<times> string) option" where
  "parse_chars [] = None"
| "parse_chars [c] = (if c = CHR 0x22 then Some ([], []) else None)"
| "parse_chars (c # e # cs) =
     (if c = CHR 0x22 then Some ([], e # cs)
      else if c = CHR 0x5C then
        (if e = CHR ''u'' then
           (case cs of
              a # b # c' # d # cs' \<Rightarrow>
                (case hex4 a b c' d of
                   None \<Rightarrow> None
                 | Some ch \<Rightarrow> consed ch (parse_chars cs'))
            | _ \<Rightarrow> None)
         else (case escaped e of
                 None \<Rightarrow> None
               | Some ch \<Rightarrow> consed ch (parse_chars cs)))
      else if (of_char c :: nat) < 32 then None
      else consed c (parse_chars (e # cs)))"

definition is_space :: "char \<Rightarrow> bool" where
  "is_space c = (c = CHR '' '' \<or> c = CHR 0x09 \<or> c = CHR 0x0A \<or> c = CHR 0x0D)"

definition skip_space :: "string \<Rightarrow> string" where
  "skip_space s = dropWhile is_space s"

text \<open>The elements of an array after its opening bracket or after a comma.\<close>

function parse_elements :: "string \<Rightarrow> (string list \<times> string) option" where
  "parse_elements s =
     (case skip_space s of
        [] \<Rightarrow> None
      | q # body \<Rightarrow>
          if q \<noteq> CHR 0x22 then None
          else (case parse_chars body of
                  None \<Rightarrow> None
                | Some (k, rest) \<Rightarrow>
                    (case skip_space rest of
                       [] \<Rightarrow> None
                     | t # rest' \<Rightarrow>
                         if t = CHR '']'' then Some ([k], rest')
                         else if t = CHR '','' \<and> length rest' < length s then
                           (case parse_elements rest' of
                              None \<Rightarrow> None
                            | Some (ks, rest'') \<Rightarrow> Some (k # ks, rest''))
                         else None)))"
  by pat_completeness auto
termination
  by (relation "measure length") auto

declare parse_elements.simps [simp del]

definition JSON_parse :: "string \<Rightarrow> string list option" where
  "JSON_parse s =
     (case skip_space s of
        [] \<Rightarrow> None
      | b # s1 \<Rightarrow>
          if b \<noteq> CHR ''['' then None
          else (case skip_space s1 of
                  [] \<Rightarrow> None
                | c # s2 \<Rightarrow>
                    if c = CHR '']'' then (if skip_space s2 = [] then Some [] else None)
                    else (case parse_elements (c # s2) of
                            None \<Rightarrow> None
                          | Some (ks, rest) \<Rightarrow> if skip_space rest = [] then Some ks else None)))"

text \<open>
  A JavaScript object with string values is an association list with distinct keys, in
  the order the keys are enumerated. The assignment \<^verbatim>\<open>states[key] = v\<close> replaces the value
  of a key that is present and adds a key that is not; on the key \<^verbatim>\<open>__proto__\<close> of an
  ordinary object it reaches the setter of the prototype, which ignores a string.
\<close>

type_synonym states = "(string \<times> string) list"

definition assign :: "string \<Rightarrow> string \<Rightarrow> states \<Rightarrow> states" where
  "assign key v states = (if key = ''__proto__'' then states else AList.update key v states)"

text \<open>
  \<^verbatim>\<open>saveStates\<close> is the only writer of the state \<^verbatim>\<open>keys\<close>, and it writes an array of
  strings. For any other saved text the model of \<^verbatim>\<open>restoreStates\<close> reports the error of
  \<^verbatim>\<open>JSON.parse\<close>.
\<close>

definition saveStates :: "states \<Rightarrow> world \<Rightarrow> world" where
  "saveStates states w =
     saveState ''keys'' (JSON_stringify (map fst states))
       (foldl (\<lambda>w' (state, v). saveState state v w') w states)"

definition restoreStates :: "states \<Rightarrow> world \<Rightarrow> error + states" where
  "restoreStates states w =
     (let saved = getState w ''keys''
      in if saved \<noteq> [] then
           (case JSON_parse saved of
              None \<Rightarrow> Inl (SyntaxError ''JSON.parse'')
            | Some keys \<Rightarrow>
                Inr (foldl (\<lambda>states' key. assign key (getState w key) states') states keys))
         else Inr states)"

subsection \<open>The forge API\<close>

text \<open>
  A call of the REST client either throws or returns a response with a status and a
  payload. The payloads carry the fields the action reads; a field that may be absent
  or \<^verbatim>\<open>null\<close> is an option. The payload of the listing of workflow runs is the list
  \<^verbatim>\<open>data.workflow_runs\<close>.
\<close>

record 'a response =
  status :: int
  data :: 'a

record release =
  rel_html_url :: string
  tag_name :: string
  created_at :: string

record workflow_run =
  event :: string
  run_name :: string
  head_branch :: "string option"
  run_status :: string
  conclusion :: "string option"
  run_number :: int
  run_id :: int
  run_html_url :: string

record pull_link =
  link_html_url :: "string option"

record issue =
  number :: int
  html_url :: string
  state :: string
  locked :: bool
  active_lock_reason :: "string option"
  pull_request :: "pull_link option"

record milestone =
  ms_title :: string
  ms_number :: int

record label =
  name :: string

record pull =
  pull_number :: int
  pull_html_url :: string
  pull_state :: string
  draft :: bool
  labels :: "label list option"
  pull_created_at :: "string option"
  pull_closed_at :: "string option"

text \<open>
  The calls that the embedded functions make; the arguments are the request's fields in
  the order the source writes them.
\<close>

record octokit =
  getReleaseByTag :: "string \<Rightarrow> string \<Rightarrow> string \<Rightarrow> error + release response"
  listWorkflowRuns :: "string \<Rightarrow> string \<Rightarrow> error + workflow_run list response"
  listForRepo :: "string \<Rightarrow> string \<Rightarrow> string \<Rightarrow> string \<Rightarrow> error + issue list response"
  listMilestones :: "string \<Rightarrow> string \<Rightarrow> error + milestone list response"
  createMilestone ::
    "string \<Rightarrow> string \<Rightarrow> string \<Rightarrow> string \<Rightarrow> string \<Rightarrow> error + milestone response"
  pulls_list :: "string \<Rightarrow> string \<Rightarrow> string \<Rightarrow> string \<Rightarrow> error + pull list response"

subsection \<open>Release verification (\<^verbatim>\<open>utils.js\<close>: \<^verbatim>\<open>verifyRelease\<close>)\<close>

record verified =
  v_release :: release
  v_workflow :: workflow_run

text \<open>The first \<^verbatim>\<open>try\<close> block: the release, or the error thrown inside the block.\<close>

definition fetchRelease :: "octokit \<Rightarrow> repo_context \<Rightarrow> string \<Rightarrow> error + release" where
  "fetchRelease octokit context release =
     (case getReleaseByTag octokit (owner context) (repo context) release of
        Inl e \<Rightarrow> Inl e
      | Inr result \<Rightarrow>
          if status result \<noteq> 200
          then Inl (Error (show_int (status result) @ '' exit code''))
          else Inr (data result))"

text \<open>
  The second \<^verbatim>\<open>try\<close> block. The list \<open>filtered\<close> only feeds the printed list of
  branches; \<^verbatim>\<open>found\<close> is searched in \<^verbatim>\<open>result.data.workflow_runs\<close>.
\<close>

definition findRun :: "octokit \<Rightarrow> repo_context \<Rightarrow> string \<Rightarrow> error + workflow_run" where
  "findRun octokit context release =
     (case listWorkflowRuns octokit (owner context) (repo context) of
        Inl e \<Rightarrow> Inl e
      | Inr result \<Rightarrow>
          if status result \<noteq> 200
          then Inl (Error (show_int (status result) @ '' exit code''))
          else
            let filtered =
                  filter (\<lambda>r. event r = ''release'' \<and> run_name r = ''Run Project Tests'')
                    (data result);
                branches = map head_branch filtered
            in (case find (\<lambda>r. head_branch r = Some release) (data result) of
                  None \<Rightarrow> Inl (Error ''workflow run not found'')
                | Some found \<Rightarrow>
                    if run_status found \<noteq> ''completed'' \<or> conclusion found \<noteq> Some ''success''
                    then Inl (Error (''run #'' @ show_int (run_number found) @ '' id '' @
                                     show_int (run_id found) @ '' not successful''))
                    else Inr found))"

definition verifyRelease :: "octokit \<Rightarrow> repo_context \<Rightarrow> string \<Rightarrow> error + verified" where
  "verifyRelease octokit context release =
     (case fetchRelease octokit context release of
        Inl e \<Rightarrow>
          Inl (Error (''Unable to fetch release '' @ release @ '' ('' @
                      toLowerCase (message e) @ '').''))
      | Inr rel \<Rightarrow>
          (case findRun octokit context release of
             Inl e \<Rightarrow>
               Inl (Error (''Unable to verify release '' @ release @ '' ('' @
                           toLowerCase (message e) @ '').''))
           | Inr found \<Rightarrow> Inr \<lparr> v_release = rel, v_workflow = found \<rparr>))"

subsection \<open>Issue and pull-request queries (\<^verbatim>\<open>utils.js\<close>)\<close>

text \<open>
  The parameter \<^verbatim>\<open>project\<close> reaches the helpers as a Number (setup sequence) or as the
  restored string (request sequence). They use it in template literals and as a property
  key only, so the model takes its string conversion.
\<close>

definition getIssues :: "octokit \<Rightarrow> repo_context \<Rightarrow> string \<Rightarrow> string \<Rightarrow> error + issue list" where
  "getIssues octokit context project type =
     (case listForRepo octokit (owner context) (repo context)
             (''project'' @ project @ '','' @ toLowerCase type) ''all'' of
        Inl e \<Rightarrow> Inl e
      | Inr result \<Rightarrow>
          if status result \<noteq> 200
          then Inl (Error (''Unable to list issues from: '' @ repo context))
          else Inr (data result))"

definition names :: "string \<Rightarrow> string" where
  "names project =
     (case map_of [(''1'', ''Inverted Index''), (''2'', ''Partial Search''),
                   (''3'', ''Multithreading''), (''4'', ''Search Engine'')] project of
        Some n \<Rightarrow> n
      | None \<Rightarrow> ''undefined'')"

text \<open>
  When the listing's status is not 200, the argument of the logging call is
  \<^verbatim>\<open>SON.stringify(milestones)\<close>: the identifier \<^verbatim>\<open>SON\<close> is not declared, its evaluation
  throws, and the \<^verbatim>\<open>throw new Error(`Unable to list milestones in: ...`)\<close> of the next
  line is never reached.
\<close>

definition getMilestone :: "octokit \<Rightarrow> repo_context \<Rightarrow> string \<Rightarrow> error + milestone" where
  "getMilestone octokit context project =
     (case listMilestones octokit (owner context) (repo context) of
        Inl e \<Rightarrow> Inl e
      | Inr milestones \<Rightarrow>
          if status milestones \<noteq> 200
          then Inl (ReferenceError ''SON is not defined'')
          else
            let title = ''Project '' @ project
            in (case find (\<lambda>x. ms_title x = title) (data milestones) of
                  None \<Rightarrow>
                    (case createMilestone octokit (owner context) (repo context) title ''open''
                            (''Project '' @ project @ '' '' @ names project) of
                       Inl e \<Rightarrow> Inl e
                     | Inr create \<Rightarrow>
                         if status create \<noteq> 201
                         then Inl (Error (''Unable to create '' @ title @ '' milestone in: '' @
                                          repo context))
                         else Inr (data create))
                | Some found \<Rightarrow> Inr found))"

definition getPullRequests :: "octokit \<Rightarrow> repo_context \<Rightarrow> string \<Rightarrow> pull list action" where
  "getPullRequests octokit context project w =
     (case pulls_list octokit (owner context) (repo context) ''all'' ''created'' of
        Inl e \<Rightarrow> (Inl e, w)
      | Inr result \<Rightarrow>
          if status result = 404 then (Inr [], showWarning w)
          else if status result \<noteq> 200
          then (Inl (Error (''Unable to list pull requests in: '' @ repo context)), w)
          else
            (Inr (filter (\<lambda>x. case labels x of
                                None \<Rightarrow> False
                              | Some ls \<Rightarrow> list_ex (\<lambda>y. name y = ''project'' @ project) ls)
                    (data result)), w))"

subsection \<open>The setup sequence: \<^verbatim>\<open>checkIssues\<close>, \<^verbatim>\<open>cloneProject\<close>, \<^verbatim>\<open>prepareBranch\<close>\<close>

definition approved :: "issue \<Rightarrow> bool" where
  "approved x = (state x = ''closed'' \<and> locked x = True \<and> active_lock_reason x = Some ''resolved'')"

definition open_pull :: "issue \<Rightarrow> bool" where
  "open_pull x =
     (state x = ''open'' \<and>
      (case pull_request x of None \<Rightarrow> False | Some l \<Rightarrow> link_html_url l \<noteq> None))"

record issue_ref =
  issueNumber :: int
  issueUrl :: string

definition checkIssues :: "octokit \<Rightarrow> repo_context \<Rightarrow> string \<Rightarrow> error + issue_ref" where
  "checkIssues octokit context project =
     (case getIssues octokit context project ''functionality'' of
        Inl e \<Rightarrow> Inl e
      | Inr funIssues \<Rightarrow>
     (case find approved funIssues of
        None \<Rightarrow>
          Inl (Error (''Unable to detect approved functionality issue for project '' @ project @
                      ''. You must pass functionality before requesting code review.''))
      | Some funPassed \<Rightarrow>
     (case getIssues octokit context project ''design'' of
        Inl e \<Rightarrow> Inl e
      | Inr desIssues \<Rightarrow>
     (case find approved desIssues of
        Some desPassed \<Rightarrow>
          Inl (Error (''Detected approved design issue #'' @ show_int (number desPassed) @
                      '' for project '' @ project @
                      ''. Additional code reviews are not necessary.''))
      | None \<Rightarrow>
     (case getIssues octokit context project ''synchronous'' of
        Inl e \<Rightarrow> Inl e
      | Inr syncPulls \<Rightarrow>
     (case getIssues octokit context project ''asynchronous'' of
        Inl e \<Rightarrow> Inl e
      | Inr asyncPulls \<Rightarrow>
     (let pulls = syncPulls @ asyncPulls
      in case find open_pull pulls of
           Some openPull \<Rightarrow>
             Inl (Error (''Detected open pull request #'' @ show_int (number openPull) @
                         '' for project '' @ project @
                         ''. Please merge or close old pull requests before requesting code review.''))
         | None \<Rightarrow>
             Inr \<lparr> issueNumber = number funPassed, issueUrl = html_url funPassed \<rparr>)))))))"

definition cloneProject :: "shell \<Rightarrow> string \<Rightarrow> repo_context \<Rightarrow> string \<Rightarrow> unit action" where
  "cloneProject sh token context release =
     and_then (checkExec sh ''git''
       \<lparr> param = Some [''clone'', ''--depth'', ''1'', ''--no-tags'',
                        ''https://github-actions:'' @ token @ ''@github.com/'' @ owner context @
                        ''/'' @ repo context, mainDir],
         title = Some (''Cloning '' @ repo context @ '' into '' @ mainDir),
         error = Some (''Failed cloning '' @ repo context @ '' repository''),
         chdir = None \<rparr>) (\<lambda>_.
     and_then (checkExec sh ''ls''
       \<lparr> param = Some [''-m'', mainDir @ ''/src/main/java''],
         title = Some ''Listing project main code'',
         error = Some ''Unable to list test directory'',
         chdir = None \<rparr>) (\<lambda>_.
     ret ()))"

definition fetch_command :: command where
  "fetch_command =
     \<lparr> tool = ''git'', args = [''fetch'', ''--unshallow'', ''--tags''], cwd = Some mainDir \<rparr>"

definition shortstat_command :: "string \<Rightarrow> command" where
  "shortstat_command release =
     \<lparr> tool = ''git'',
       args = [''diff'', ''--shortstat'', ''origin/main'', release],
       cwd = Some mainDir \<rparr>"

definition diff_command :: "string \<Rightarrow> command" where
  "diff_command release =
     \<lparr> tool = ''git'',
       args = [''diff'', ''--exit-code'', ''--quiet'', ''origin/main'', release],
       cwd = Some mainDir \<rparr>"

definition checkout_command :: "string \<Rightarrow> command" where
  "checkout_command release =
     \<lparr> tool = ''git'',
       args = [''checkout'', ''-b'', ''review/'' @ release],
       cwd = Some mainDir \<rparr>"

definition diverged :: "string \<Rightarrow> string" where
  "diverged release =
     ''The main branch has one or more commits since release '' @ release @
     '' was created. There must be no changes since the last verified release for code review.''"

definition prepareBranch :: "shell \<Rightarrow> string \<Rightarrow> repo_context \<Rightarrow> string \<Rightarrow> string action" where
  "prepareBranch sh token context release =
     and_then (checkExec sh ''git''
       \<lparr> param = Some [''fetch'', ''--unshallow'', ''--tags''],
         title = Some ''Fetching commit history and tags'',
         error = Some ''Unable to fetch history and tags'',
         chdir = Some mainDir \<rparr>) (\<lambda>_.
     and_then (checkExec sh ''git''
       \<lparr> param = Some [''diff'', ''--shortstat'', ''origin/main'', release],
         title = Some ''Checking main branch and release are even'',
         error = Some ''Unable compare main branch and release'',
         chdir = Some mainDir \<rparr>) (\<lambda>_.
     and_then (checkExec sh ''git''
       \<lparr> param = Some [''diff'', ''--exit-code'', ''--quiet'', ''origin/main'', release],
         title = None,
         error = None,
         chdir = Some mainDir \<rparr>) (\<lambda>changed.
     if changed \<noteq> 0 then throw (Error (diverged release))
     else
     and_then (checkExec sh ''git''
       \<lparr> param = Some [''config'', ''user.name'', ''github-actions''],
         title = Some ''Configuring github action user'',
         error = Some ''Unable to configure github action user'',
         chdir = Some mainDir \<rparr>) (\<lambda>_.
     and_then (checkExec sh ''git''
       \<lparr> param = Some [''config'', ''user.email'', ''github-actions@github.com''],
         title = Some ''Configuring github action email'',
         error = Some ''Unable to configure github action email'',
         chdir = Some mainDir \<rparr>) (\<lambda>_.
     and_then (checkExec sh ''git''
       \<lparr> param = Some [''checkout'', ''-b'', ''review/'' @ release],
         title = Some ''Creating review branch'',
         error = Some ''Unable to create review branch'',
         chdir = Some mainDir \<rparr>) (\<lambda>_.
     ret (''review/'' @ release)))))))"

subsection \<open>The request sequence: setup and verify phases of \<^verbatim>\<open>run\<close>\<close>

definition bs :: string where
  "bs = [CHR 0x5C]"

definition todo_grep :: command where
  "todo_grep =
     \<lparr> tool = ''grep'',
       args = [''-rnoiE'', ''^'' @ bs @ ''s*[/*]{1,2}.*'' @ bs @ ''bTODO'' @ bs @ ''b'', ''.''],
       cwd = Some (mainDir @ ''/src/main/java'') \<rparr>"

definition main_grep :: command where
  "main_grep =
     \<lparr> tool = ''grep'',
       args = [''-rnoiE'', ''--exclude=Driver.java'',
               bs @ ''s*public'' @ bs @ ''s+static'' @ bs @ ''s+void'' @ bs @ ''s+main'' @ bs @
               ''s*'' @ bs @ ''('', ''.''],
       cwd = Some (mainDir @ ''/src/main/java'') \<rparr>"

definition todo_found :: string where
  "todo_found =
     ''One or more TODO comments found. Please clean up the code before requesting code review.''"

definition main_found :: string where
  "main_found =
     ''More than one main method found. Please clean up old main methods before requesting code review.''"

text \<open>The group \<^verbatim>\<open>Displaying environment setup...\<close>.\<close>

definition displayEnvironment :: "shell \<Rightarrow> unit action" where
  "displayEnvironment sh =
     and_then (checkExec sh ''java''
       \<lparr> param = Some [''--version''],
         title = Some ''Displaying Java runtime version'',
         error = Some ''Unable to display Java runtime version'',
         chdir = None \<rparr>) (\<lambda>_.
     and_then (checkExec sh ''javac''
       \<lparr> param = Some [''--version''],
         title = Some ''Displaying Java compiler version'',
         error = Some ''Unable to display Java compiler version'',
         chdir = None \<rparr>) (\<lambda>_.
     and_then (checkExec sh ''mvn''
       \<lparr> param = Some [''--version''],
         title = Some ''Displaying Maven version'',
         error = Some ''Unable to display Maven version'',
         chdir = None \<rparr>) (\<lambda>_.
     ret ())))"

text \<open>The group \<^verbatim>\<open>Checking code for warnings...\<close>; the result is \<^verbatim>\<open>status.mainCompile\<close>.\<close>

definition checkCompile :: "shell \<Rightarrow> int action" where
  "checkCompile sh =
     and_then (checkExec sh ''mvn''
       \<lparr> param = Some [''-ntp'', ''\"-DcompileOptionXlint=-Xlint:all\"'',
                        ''\"-DcompileOptionXdoclint=-Xdoclint:all/private\"'',
                        ''-DcompileOptionFail=true'', ''-Dmaven.compiler.failOnWarning=true'',
                        ''-Dmaven.compiler.showWarnings=true'', ''clean'', ''compile''],
         title = Some ''Compiling project code'',
         error = Some ''Unable to compiling code without warnings. Please address all warnings before requesting code review'',
         chdir = Some (mainDir @ ''/'') \<rparr>) (\<lambda>mainCompile.
     and_then (checkExec sh ''ls''
       \<lparr> param = Some [''-m'', mainDir @ ''/target/classes''],
         title = Some ''Listing main class files'',
         error = Some ''Unable to list main class directory'',
         chdir = None \<rparr>) (\<lambda>_.
     ret mainCompile))"

text \<open>
  The group \<^verbatim>\<open>Checking code for cleanup...\<close>; the result is the pair of
  \<^verbatim>\<open>status.todoGrep\<close> and \<^verbatim>\<open>status.mainGrep\<close>.
\<close>

definition checkCleanup :: "shell \<Rightarrow> (int \<times> int) action" where
  "checkCleanup sh =
     and_then (checkExec sh ''grep''
       \<lparr> param = Some [''-rnoiE'', ''^'' @ bs @ ''s*[/*]{1,2}.*'' @ bs @ ''bTODO'' @ bs @ ''b'', ''.''],
         title = Some ''Checking for 1 line TODO comments'',
         error = None,
         chdir = Some (mainDir @ ''/src/main/java'') \<rparr>) (\<lambda>todoGrep.
     if todoGrep \<noteq> 1 then throw (Error todo_found)
     else
     and_then (checkExec sh ''grep''
       \<lparr> param = Some [''-rnoiE'', ''--exclude=Driver.java'',
                        bs @ ''s*public'' @ bs @ ''s+static'' @ bs @ ''s+void'' @ bs @ ''s+main'' @
                        bs @ ''s*'' @ bs @ ''('', ''.''],
         title = Some ''Checking for extra main methods'',
         error = None,
         chdir = Some (mainDir @ ''/src/main/java'') \<rparr>) (\<lambda>mainGrep.
     if mainGrep \<noteq> 1 then throw (Error main_found)
     else ret (todoGrep, mainGrep)))"

record verify_status =
  mainCompile :: int
  todoGrep :: int
  mainGrep :: int

text \<open>
  The \<^verbatim>\<open>try\<close> block of \<^verbatim>\<open>run\<close> from its start to the end of the verify phase: the
  restored states and the status of the steps, with which the approve phase goes on.
\<close>

definition requestVerify :: "shell \<Rightarrow> (states \<times> verify_status) action" where
  "requestVerify sh =
     and_then (\<lambda>w. (restoreStates [] w, w)) (\<lambda>states.
     and_then (displayEnvironment sh) (\<lambda>_.
     and_then (checkCompile sh) (\<lambda>compiled.
     and_then (checkCleanup sh) (\<lambda>(todo, main).
     ret (states, \<lparr> mainCompile = compiled, todoGrep = todo, mainGrep = main \<rparr>)))))"

subsection \<open>The label column of the pull-request table\<close>

definition sorter :: "label \<Rightarrow> label \<Rightarrow> int" where
  "sorter x y =
     (if startsWith (name x) ''project'' then - 1
      else if startsWith (name y) ''project'' then 1
      else if startsWith (name x) ''v'' then - 1
      else if startsWith (name y) ''v'' then 1
      else if name x < name y then - 1
      else if name x > name y then - 1
      else 0)"

text \<open>
  \<^verbatim>\<open>Array.prototype.sort\<close> with a comparator. The language leaves the order of the
  result to the engine when the comparator is not consistent; the model follows the
  engine of the runner. It finds the run at the start of the array: the second element
  is compared with the first, and each further element with the one before it, as long
  as the answers keep the direction of the first; a descending run is reversed. Each
  element after the run is then placed in the sorted part by binary search, the new
  element being the first argument of the comparator: a negative answer sends it to the
  left of the element asked. This is the whole sort of an array of fewer than 64
  elements; a longer array is sorted in several such runs that are then merged, which
  the model does not follow.
\<close>

function binary_place :: "('a \<Rightarrow> 'a \<Rightarrow> int) \<Rightarrow> 'a \<Rightarrow> 'a list \<Rightarrow> nat \<Rightarrow> nat \<Rightarrow> nat" where
  "binary_place comparefn pivot a left right =
     (if left < right then
        (let mid = left + (right - left) div 2
         in if comparefn pivot (a ! mid) < 0
            then binary_place comparefn pivot a left mid
            else binary_place comparefn pivot a (mid + 1) right)
      else left)"
  by pat_completeness auto
termination
  by (relation "measure (\<lambda>(comparefn, pivot, a, left, right). right - left)") auto

declare binary_place.simps [simp del]

definition insert_pivot :: "('a \<Rightarrow> 'a \<Rightarrow> int) \<Rightarrow> 'a list \<Rightarrow> 'a \<Rightarrow> 'a list" where
  "insert_pivot comparefn a pivot =
     (let left = binary_place comparefn pivot a 0 (length a)
      in take left a @ pivot # drop left a)"

text \<open>The number of elements that continue the run after its first two.\<close>

fun run_more :: "('a \<Rightarrow> 'a \<Rightarrow> int) \<Rightarrow> bool \<Rightarrow> 'a \<Rightarrow> 'a list \<Rightarrow> nat" where
  "run_more comparefn isDescending previousElement [] = 0"
| "run_more comparefn isDescending previousElement (currentElement # rest) =
     (let order = comparefn currentElement previousElement
      in if (if isDescending then order \<ge> 0 else order < 0) then 0
         else Suc (run_more comparefn isDescending currentElement rest))"

definition sort_js :: "('a \<Rightarrow> 'a \<Rightarrow> int) \<Rightarrow> 'a list \<Rightarrow> 'a list" where
  "sort_js comparefn a =
     (case a of
        elementHigh # elementLow # rest \<Rightarrow>
          let isDescending = comparefn elementLow elementHigh < 0;
              runLength = 2 + run_more comparefn isDescending elementLow rest;
              run = (if isDescending then rev (take runLength a) else take runLength a)
          in foldl (insert_pivot comparefn) run (drop runLength a)
      | _ \<Rightarrow> a)"

text \<open>A list in which every element compares before every later one.\<close>

definition ordered :: "('a \<Rightarrow> 'a \<Rightarrow> int) \<Rightarrow> 'a list \<Rightarrow> bool" where
  "ordered comparefn a = sorted_wrt (\<lambda>x y. comparefn x y < 0) a"

definition labelColumn :: "pull \<Rightarrow> string" where
  "labelColumn pull =
     (case labels pull of
        Some ls \<Rightarrow> join '', '' (map name (sort_js sorter ls))
      | None \<Rightarrow> ''N/A'')"

subsection \<open>Notions for the statements\<close>

text \<open>The world after one more subprocess, and the command that \<^verbatim>\<open>checkExec\<close> starts.\<close>

definition after :: "world \<Rightarrow> command \<Rightarrow> world" where
  "after w c = w\<lparr>executed := executed w @ [c]\<rparr>"

definition command_of :: "string \<Rightarrow> settings \<Rightarrow> command" where
  "command_of t s =
     \<lparr> tool = t, args = (case param s of Some p \<Rightarrow> p | None \<Rightarrow> []), cwd = chdir s \<rparr>"

text \<open>The commands that an action has added to the world.\<close>

definition started :: "'a action \<Rightarrow> world \<Rightarrow> command list" where
  "started m w = drop (length (executed w)) (executed (snd (m w)))"

text \<open>The steps of \<^verbatim>\<open>prepareBranch\<close> that follow the check of the diff.\<close>

definition finishBranch :: "shell \<Rightarrow> string \<Rightarrow> string action" where
  "finishBranch sh release =
     and_then (checkExec sh ''git''
       \<lparr> param = Some [''config'', ''user.name'', ''github-actions''],
         title = Some ''Configuring github action user'',
         error = Some ''Unable to configure github action user'',
         chdir = Some mainDir \<rparr>) (\<lambda>_.
     and_then (checkExec sh ''git''
       \<lparr> param = Some [''config'', ''user.email'', ''github-actions@github.com''],
         title = Some ''Configuring github action email'',
         error = Some ''Unable to configure github action email'',
         chdir = Some mainDir \<rparr>) (\<lambda>_.
     and_then (checkExec sh ''git''
       \<lparr> param = Some [''checkout'', ''-b'', ''review/'' @ release],
         title = Some ''Creating review branch'',
         error = Some ''Unable to create review branch'',
         chdir = Some mainDir \<rparr>) (\<lambda>_.
     ret (''review/'' @ release))))"

text \<open>The steps of \<^verbatim>\<open>run\<close> that come before the text scans.\<close>

definition beforeCleanup :: "shell \<Rightarrow> (states \<times> int) action" where
  "beforeCleanup sh =
     and_then (\<lambda>w. (restoreStates [] w, w)) (\<lambda>states.
     and_then (displayEnvironment sh) (\<lambda>_.
     and_then (checkCompile sh) (\<lambda>compiled.
     ret (states, compiled))))"

text \<open>The runs that the filter of \<^verbatim>\<open>verifyRelease\<close> keeps.\<close>

definition test_runs :: "workflow_run list \<Rightarrow> workflow_run list" where
  "test_runs runs = filter (\<lambda>r. event r = ''release'' \<and> run_name r = ''Run Project Tests'') runs"

subsection \<open>Sample inputs\<close>

definition octocat :: repo_context where
  "octocat = \<lparr> owner = ''octocat'', repo = ''search-engine'' \<rparr>"

text \<open>A world in which nothing has happened, and a shell in which every command exits with 0.\<close>

definition fresh :: world where
  "fresh = \<lparr> executed = [], saved_state = (\<lambda>name. None), warnings = 0 \<rparr>"

definition all_succeed :: shell where
  "all_succeed history c = Inr 0"

text \<open>
  A shell in which the exit-code diff reports a change, and one in which both scans
  exit with 1; every other command exits with 0.
\<close>

definition main_moved :: shell where
  "main_moved history c = (if take 2 (args c) = [''diff'', ''--exit-code''] then Inr 1 else Inr 0)"

definition scans_one :: shell where
  "scans_one history c = (if tool c = ''grep'' then Inr 1 else Inr 0)"

text \<open>A forge that answers every call by throwing, and forges that answer some calls.\<close>

definition no_api :: octokit where
  "no_api =
     \<lparr> getReleaseByTag = (\<lambda>_ _ _. Inl (Error ''Not Found'')),
       listWorkflowRuns = (\<lambda>_ _. Inl (Error ''Not Found'')),
       listForRepo = (\<lambda>_ _ _ _. Inl (Error ''Not Found'')),
       listMilestones = (\<lambda>_ _. Inl (Error ''Not Found'')),
       createMilestone = (\<lambda>_ _ _ _ _. Inl (Error ''Not Found'')),
       pulls_list = (\<lambda>_ _ _ _. Inl (Error ''Not Found'')) \<rparr>"

definition tag_release :: release where
  "tag_release =
     \<lparr> rel_html_url = ''https://github.com/octocat/search-engine/releases/tag/v1.0.0'',
       tag_name = ''v1.0.0'',
       created_at = ''2021-09-01T12:00:00Z'' \<rparr>"

text \<open>
  A run of another workflow, started by the push of the tag \<^verbatim>\<open>v1.0.0\<close>; the same run
  with a failure; the run of the test workflow for the release.
\<close>

definition push_run :: workflow_run where
  "push_run =
     \<lparr> event = ''push'', run_name = ''Build Site'', head_branch = Some ''v1.0.0'',
       run_status = ''completed'', conclusion = Some ''success'', run_number = 7,
       run_id = 1001,
       run_html_url = ''https://github.com/octocat/search-engine/actions/runs/1001'' \<rparr>"

definition failed_push_run :: workflow_run where
  "failed_push_run = push_run \<lparr> conclusion := Some ''failure'' \<rparr>"

definition release_run :: workflow_run where
  "release_run =
     \<lparr> event = ''release'', run_name = ''Run Project Tests'', head_branch = Some ''v1.0.0'',
       run_status = ''completed'', conclusion = Some ''success'', run_number = 8,
       run_id = 1002,
       run_html_url = ''https://github.com/octocat/search-engine/actions/runs/1002'' \<rparr>"

definition runs_api :: "workflow_run list \<Rightarrow> octokit" where
  "runs_api runs =
     no_api
       \<lparr> getReleaseByTag := (\<lambda>_ _ _. Inr \<lparr> status = 200, data = tag_release \<rparr>),
         listWorkflowRuns := (\<lambda>_ _. Inr \<lparr> status = 200, data = runs \<rparr>) \<rparr>"

text \<open>Two approved functionality issues of project 2, and a forge that lists them.\<close>

definition first_passed :: issue where
  "first_passed =
     \<lparr> number = 11, html_url = ''https://github.com/octocat/search-engine/issues/11'',
       state = ''closed'', locked = True, active_lock_reason = Some ''resolved'',
       pull_request = None \<rparr>"

definition second_passed :: issue where
  "second_passed =
     first_passed \<lparr> number := 12, html_url := ''https://github.com/octocat/search-engine/issues/12'' \<rparr>"

definition issues_api :: "issue list \<Rightarrow> issue list \<Rightarrow> issue list \<Rightarrow> issue list \<Rightarrow> octokit" where
  "issues_api funIssues desIssues syncPulls asyncPulls =
     no_api
       \<lparr> listForRepo := (\<lambda>_ _ labels _.
           Inr \<lparr> status = 200,
                 data = (if labels = ''project2,functionality'' then funIssues
                         else if labels = ''project2,design'' then desIssues
                         else if labels = ''project2,synchronous'' then syncPulls
                         else if labels = ''project2,asynchronous'' then asyncPulls
                         else []) \<rparr>) \<rparr>"

text \<open>A forge whose listings answer with the status 500.\<close>

definition failing_api :: octokit where
  "failing_api =
     no_api
       \<lparr> listForRepo := (\<lambda>_ _ _ _. Inr \<lparr> status = 500, data = [] \<rparr>),
         listMilestones := (\<lambda>_ _. Inr \<lparr> status = 500, data = [] \<rparr>),
         pulls_list := (\<lambda>_ _ _ _. Inr \<lparr> status = 500, data = [] \<rparr>) \<rparr>"

text \<open>The labels of the example, and a pull request that carries them.\<close>

definition tag_label :: label where
  "tag_label = \<lparr> name = ''v1.2.0'' \<rparr>"

definition project_label :: label where
  "project_label = \<lparr> name = ''project3'' \<rparr>"

definition other_label :: label where
  "other_label = \<lparr> name = ''zzz'' \<rparr>"

definition bug_label :: label where
  "bug_label = \<lparr> name = ''bug'' \<rparr>"

definition labelled_pull :: pull where
  "labelled_pull =
     \<lparr> pull_number = 3,
       pull_html_url = ''https://github.com/octocat/search-engine/pull/3'',
       pull_state = ''closed'',
       draft = False,
       labels = Some [tag_label, project_label, other_label],
       pull_created_at = Some ''2021-09-02T12:00:00Z'',
       pull_closed_at = None \<rparr>"

section \<open>Properties\<close>

subsection \<open>Reference parsing\<close>

text \<open>
  The matcher accepts exactly the strings \<^verbatim>\<open>v\<close>, one of the digits 1 to 4, a dot, a
  non-empty run of digits, a dot, a non-empty run of digits, and returns the three runs.
\<close>

lemma str_split_ne: "str_split sep s \<noteq> []"
  by (induction s) auto

lemma str_split_no_sep: "sep \<notin> set s \<Longrightarrow> str_split sep s = [s]"
  by (induction s) auto

lemma match_version_SomeD:
  assumes "match_version s = Some (g1, g2, g3)"
  shows "\<exists>p. p \<in> set ''1234'' \<and> g1 = [p] \<and> g2 \<noteq> [] \<and> g3 \<noteq> [] \<and>
          list_all is_digit g2 \<and> list_all is_digit g3 \<and>
          s = ''v'' @ g1 @ ''.'' @ g2 @ ''.'' @ g3"
proof -
  from assms obtain p rest where s: "s = CHR ''v'' # p # CHR ''.'' # rest" and p: "p \<in> set ''1234''"
    and r: "(case dropWhile is_digit rest of [] \<Rightarrow> None
            | d # q \<Rightarrow> if d = CHR ''.'' \<and> takeWhile is_digit rest \<noteq> [] \<and> q \<noteq> [] \<and> list_all is_digit q
                then Some ([p], takeWhile is_digit rest, q) else None) = Some (g1, g2, g3)"
    by (auto simp: match_version_def Let_def split: list.splits if_splits)
  from r obtain q where d: "dropWhile is_digit rest = CHR ''.'' # q" and q: "q \<noteq> []" "list_all is_digit q"
     and g: "g1 = [p]" "g2 = takeWhile is_digit rest" "g3 = q" and g2: "takeWhile is_digit rest \<noteq> []"
    by (auto split: list.splits if_splits)
  have "rest = takeWhile is_digit rest @ dropWhile is_digit rest" by simp
  then have "rest = g2 @ CHR ''.'' # g3" using d g by simp
  moreover have "list_all is_digit g2" unfolding g by (auto simp: list_all_iff dest: set_takeWhileD)
  ultimately show ?thesis using s p q g g2 by auto
qed

lemma match_version_SomeI:
  assumes "p \<in> set ''1234''" "g2 \<noteq> []" "g3 \<noteq> []" "list_all is_digit g2" "list_all is_digit g3"
  shows "match_version (''v'' @ [p] @ ''.'' @ g2 @ ''.'' @ g3) = Some ([p], g2, g3)"
proof -
  have nd: "\<not> is_digit CHR ''.''" by (simp add: is_digit_def)
  have tw: "takeWhile is_digit (g2 @ CHR ''.'' # g3) = g2"
    using assms(4) nd by (simp add: list_all_iff)
  have dw: "dropWhile is_digit (g2 @ CHR ''.'' # g3) = CHR ''.'' # g3"
    using assms(4) nd by (simp add: list_all_iff)
  show ?thesis
    using assms tw dw by (simp add: match_version_def Let_def)
qed

lemma match_version_iff:
  "match_version s = Some (g1, g2, g3) \<longleftrightarrow>
     (\<exists>p. p \<in> set ''1234'' \<and> g1 = [p] \<and> g2 \<noteq> [] \<and> g3 \<noteq> [] \<and>
          list_all is_digit g2 \<and> list_all is_digit g3 \<and>
          s = ''v'' @ g1 @ ''.'' @ g2 @ ''.'' @ g3)"
  using match_version_SomeD [of s g1 g2 g3] match_version_SomeI [of _ g2 g3] by blast

lemma is_digit_not_slash: "is_digit c \<Longrightarrow> c \<noteq> CHR ''/''"
  by (auto simp: is_digit_def)

lemma match_version_no_slash:
  assumes "match_version s = Some g"
  shows "CHR ''/'' \<notin> set s"
proof -
  obtain g1 g2 g3 where g: "g = (g1, g2, g3)" by (cases g) auto
  from match_version_SomeD [OF assms [unfolded g]]
  obtain p where p: "p \<in> set ''1234''" "g1 = [p]" "list_all is_digit g2" "list_all is_digit g3"
    "s = ''v'' @ g1 @ ''.'' @ g2 @ ''.'' @ g3" by blast
  have "CHR ''/'' \<notin> set g2" "CHR ''/'' \<notin> set g3"
    using p(3,4) is_digit_not_slash by (auto simp: list_all_iff)
  moreover have "p \<noteq> CHR ''/''" using p(1) by auto
  ultimately show ?thesis using p(2,5) by auto
qed

lemmas parse_eval = parseProject_def checkRequestType_def match_version_def Let_def
  is_digit_def unary_plus_def digits_value_def digit_value_def to_double_def testDir_def

text \<open>
  C5, as stated, fails: the reference \<^verbatim>\<open>refs/tags/v2.3.1\<close> is not of the form
  \<^verbatim>\<open>v[1-4].digits.digits\<close>, and \<^verbatim>\<open>parseProject\<close> returns project details for it.
\<close>

theorem parseProject_whole_reference_counterexample:
  "match_version ''refs/tags/v2.3.1'' = None \<and>
   parseProject ''s'' octocat ''refs/tags/v2.3.1'' =
     Inr \<lparr> d_type = ''Synchronous'', d_owner = ''octocat'',
           d_mainRepo = ''octocat/search-engine'', d_testRepo = ''octocat/project-tests'',
           d_project = Num 2, d_reviews = Num 3, d_patches = Num 1, d_version = ''v2.3.1'' \<rparr>"
  by (simp add: parse_eval octocat_def)

text \<open>
  C5, amended: for every reference whose segment after the last \<^verbatim>\<open>/\<close> does not match
  \<^verbatim>\<open>^v([1-4])\.(\d+)\.(\d+)$\<close>, \<^verbatim>\<open>parseProject\<close> fails; when the review type is valid
  the error is \<^verbatim>\<open>Unable to parse project information from: \<close> followed by the reference.
\<close>

theorem parseProject_rejects:
  assumes "match_version (last (str_split CHR ''/'' ref)) = None"
  shows "(\<exists>e. parseProject type context ref = Inl e) \<and>
         (\<forall>t. checkRequestType type = Inr t \<longrightarrow>
            parseProject type context ref =
              Inl (Error (''Unable to parse project information from: '' @ ref)))"
  using assms by (auto simp: parseProject_def Let_def split: sum.splits)

theorem parseProject_rejects_witness:
  "match_version (last (str_split CHR ''/'' ''release/v5.0.0'')) = None \<and>
   checkRequestType ''a'' = Inr ''Asynchronous'' \<and>
   parseProject ''a'' octocat ''release/v5.0.0'' =
     Inl (Error ''Unable to parse project information from: release/v5.0.0'')"
proof -
  have m: "match_version (last (str_split CHR ''/'' ''release/v5.0.0'')) = None"
    by (simp add: parse_eval)
  have t: "checkRequestType ''a'' = Inr ''Asynchronous''" by (simp add: checkRequestType_def)
  from parseProject_rejects [OF m, of "''a''" octocat] m t show ?thesis by simp
qed

text \<open>
  C10, as stated, fails: \<^verbatim>\<open>parseProject\<close> checks the review type before it reads the
  reference. The last segment of \<^verbatim>\<open>refs/tags/v2.3.1\<close> matches the pattern, and with the
  review type empty or \<^verbatim>\<open>x\<close> parsing fails.
\<close>

theorem parseProject_type_first_counterexample:
  "match_version (last (str_split CHR ''/'' ''refs/tags/v2.3.1'')) = Some (''2'', ''3'', ''1'') \<and>
   parseProject '''' octocat ''refs/tags/v2.3.1'' =
     Inl (Error (''Missing required review request type. '' @ usage)) \<and>
   parseProject ''x'' octocat ''refs/tags/v2.3.1'' =
     Inl (Error (''The value \"x\" is not a valid code review type. '' @ usage))"
  by (simp add: parseProject_def checkRequestType_def match_version_def Let_def is_digit_def)

text \<open>
  C10, amended: \<^verbatim>\<open>parseProject\<close> applies the pattern to the segment after the last
  \<^verbatim>\<open>/\<close> only. For every reference whose last segment matches, parsing the reference
  gives the same result as parsing that segment alone. When the review type is valid
  that result is the project details: the type, the owner and the two repositories, the
  Numbers of the three matched groups as project, reviews and patches, and the segment
  as version. When the review type is not valid the result is the error of the type.
\<close>

theorem parseProject_last_segment:
  assumes "match_version (last (str_split CHR ''/'' ref)) = Some (g1, g2, g3)"
  shows "parseProject type context ref =
           parseProject type context (last (str_split CHR ''/'' ref)) \<and>
         (\<forall>t. checkRequestType type = Inr t \<longrightarrow>
            parseProject type context ref =
              Inr \<lparr> d_type = t,
                    d_owner = owner context,
                    d_mainRepo = owner context @ ''/'' @ repo context,
                    d_testRepo = owner context @ ''/'' @ testDir,
                    d_project = unary_plus g1,
                    d_reviews = unary_plus g2,
                    d_patches = unary_plus g3,
                    d_version = last (str_split CHR ''/'' ref) \<rparr>) \<and>
         (\<forall>e. checkRequestType type = Inl e \<longrightarrow> parseProject type context ref = Inl e)"
proof -
  let ?v = "last (str_split CHR ''/'' ref)"
  have "str_split CHR ''/'' ?v = [?v]"
    using match_version_no_slash [OF assms] by (rule str_split_no_sep)
  then have same: "last (str_split CHR ''/'' ?v) = ?v" by simp
  show ?thesis
    using assms same by (auto simp: parseProject_def Let_def split: sum.splits)
qed

theorem parseProject_last_segment_witness:
  "parseProject ''s'' octocat ''refs/tags/v2.3.1'' =
     parseProject ''s'' octocat (last (str_split CHR ''/'' ''refs/tags/v2.3.1'')) \<and>
   parseProject ''s'' octocat ''refs/tags/v2.3.1'' =
     Inr \<lparr> d_type = ''Synchronous'',
           d_owner = owner octocat,
           d_mainRepo = owner octocat @ ''/'' @ repo octocat,
           d_testRepo = owner octocat @ ''/'' @ testDir,
           d_project = unary_plus ''2'',
           d_reviews = unary_plus ''3'',
           d_patches = unary_plus ''1'',
           d_version = last (str_split CHR ''/'' ''refs/tags/v2.3.1'') \<rparr> \<and>
   unary_plus ''2'' = Num 2 \<and> unary_plus ''3'' = Num 3 \<and> unary_plus ''1'' = Num 1 \<and>
   last (str_split CHR ''/'' ''refs/tags/v2.3.1'') = ''v2.3.1''"
proof -
  have m: "match_version (last (str_split CHR ''/'' ''refs/tags/v2.3.1'')) = Some (''2'', ''3'', ''1'')"
    by (simp add: parse_eval)
  have t: "checkRequestType ''s'' = Inr ''Synchronous''"
    by (simp add: checkRequestType_def)
  have n: "unary_plus ''2'' = Num 2 \<and> unary_plus ''3'' = Num 3 \<and> unary_plus ''1'' = Num 1"
    by (simp add: unary_plus_def digits_value_def digit_value_def to_double_def)
  have l: "last (str_split CHR ''/'' ''refs/tags/v2.3.1'') = ''v2.3.1''"
    by simp
  from parseProject_last_segment [OF m, of "''s''" octocat] t
  have "parseProject ''s'' octocat ''refs/tags/v2.3.1'' =
       parseProject ''s'' octocat (last (str_split CHR ''/'' ''refs/tags/v2.3.1'')) \<and>
     parseProject ''s'' octocat ''refs/tags/v2.3.1'' =
       Inr \<lparr> d_type = ''Synchronous'',
             d_owner = owner octocat,
             d_mainRepo = owner octocat @ ''/'' @ repo octocat,
             d_testRepo = owner octocat @ ''/'' @ testDir,
             d_project = unary_plus ''2'',
             d_reviews = unary_plus ''3'',
             d_patches = unary_plus ''1'',
             d_version = last (str_split CHR ''/'' ''refs/tags/v2.3.1'') \<rparr>"
    by blast
  then show ?thesis using n l by blast
qed

subsection \<open>Preparing the review branch\<close>

lemma executed_after [simp]: "executed (after w c) = executed w @ [c]"
  by (simp add: after_def)

lemma and_then_checkExec:
  "and_then (checkExec sh t s) f w =
     (case sh (executed w) (command_of t s) of
        Inl e \<Rightarrow> (Inl e, after w (command_of t s))
      | Inr r \<Rightarrow>
          if error s \<noteq> None \<and> r \<noteq> 0
          then (Inl (Error (the (error s) @ '' ('' @ show_int r @ '').'')), after w (command_of t s))
          else f r (after w (command_of t s)))"
  by (auto simp: and_then_def checkExec_def after_def command_of_def Let_def split: sum.splits option.splits)

lemmas branch_cmds = fetch_command_def shortstat_command_def diff_command_def checkout_command_def

lemma command_of_simps:
  "command_of t \<lparr>param = Some p, title = ti, error = e, chdir = d\<rparr> = \<lparr>tool = t, args = p, cwd = d\<rparr>"
  "command_of t \<lparr>param = None, title = ti, error = e, chdir = d\<rparr> = \<lparr>tool = t, args = [], cwd = d\<rparr>"
  by (simp_all add: command_of_def)

lemma prepareBranch_steps:
  "prepareBranch sh token context release w =
    (case sh (executed w) fetch_command of
       Inl e \<Rightarrow> (Inl e, after w fetch_command)
     | Inr r1 \<Rightarrow>
         if r1 \<noteq> 0
         then (Inl (Error (''Unable to fetch history and tags ('' @ show_int r1 @ '').'')),
               after w fetch_command)
         else (case sh (executed w @ [fetch_command]) (shortstat_command release) of
           Inl e \<Rightarrow> (Inl e, after (after w fetch_command) (shortstat_command release))
         | Inr r2 \<Rightarrow>
             if r2 \<noteq> 0
             then (Inl (Error (''Unable compare main branch and release ('' @ show_int r2 @ '').'')),
                   after (after w fetch_command) (shortstat_command release))
             else (case sh (executed w @ [fetch_command, shortstat_command release])
                          (diff_command release) of
               Inl e \<Rightarrow>
                 (Inl e, after (after (after w fetch_command) (shortstat_command release))
                           (diff_command release))
             | Inr changed \<Rightarrow>
                 if changed \<noteq> 0
                 then (Inl (Error (diverged release)),
                       after (after (after w fetch_command) (shortstat_command release))
                         (diff_command release))
                 else finishBranch sh release
                        (after (after (after w fetch_command) (shortstat_command release))
                           (diff_command release)))))"
  unfolding prepareBranch_def finishBranch_def
  apply (subst and_then_checkExec)
  apply (subst and_then_checkExec)
  apply (subst and_then_checkExec)
  apply (simp only: command_of_simps settings.simps option.simps option.sel if_distribR throw_def
      executed_after append_assoc append.simps flip: branch_cmds)
  apply (simp split: sum.splits)
  done

lemma finishBranch_Inr:
  assumes "finishBranch sh release w = (Inr b, w')"
  shows "b = ''review/'' @ release \<and> last (executed w') = checkout_command release"
  using assms unfolding finishBranch_def
  apply (subst (asm) and_then_checkExec)
  apply (subst (asm) and_then_checkExec)
  apply (subst (asm) and_then_checkExec)
  apply (simp only: command_of_simps settings.simps option.simps option.sel if_distribR ret_def
      executed_after append_assoc append.simps flip: branch_cmds)
  apply (auto simp: checkout_command_def split: sum.splits if_splits)
  done

lemma prepareBranch_all_succeed:
  "prepareBranch all_succeed token context release w =
     (Inr (''review/'' @ release),
      w\<lparr>executed := executed w @
         [fetch_command, shortstat_command release, diff_command release,
          \<lparr>tool = ''git'', args = [''config'', ''user.name'', ''github-actions''], cwd = Some mainDir\<rparr>,
          \<lparr>tool = ''git'', args = [''config'', ''user.email'', ''github-actions@github.com''],
            cwd = Some mainDir\<rparr>,
          checkout_command release]\<rparr>)"
  apply (subst prepareBranch_steps)
  apply (simp add: all_succeed_def finishBranch_def and_then_checkExec command_of_simps ret_def
      after_def checkout_command_def)
  done

lemma prepareBranch_Inr:
  assumes "prepareBranch sh token context release w = (Inr b, w')"
  shows "b = ''review/'' @ release \<and> last (executed w') = checkout_command release"
  using assms
  apply (subst (asm) prepareBranch_steps)
  apply (auto split: sum.splits if_splits dest: finishBranch_Inr)
  done

text \<open>
  C3: \<^verbatim>\<open>prepareBranch\<close> starts \<^verbatim>\<open>git checkout -b review/<release>\<close> only when
  \<^verbatim>\<open>git diff --exit-code --quiet origin/main <release>\<close> has exited with 0. When that diff
  exits with another code, \<^verbatim>\<open>prepareBranch\<close> fails with the message that the main
  branch has commits since the release, the diff is the last command it has started, and
  the checkout is not among its commands.
\<close>

theorem prepareBranch_only_when_even:
  "(checkout_command release \<in> set (started (prepareBranch sh token context release) w) \<longrightarrow>
      sh (executed w @ [fetch_command, shortstat_command release]) (diff_command release) = Inr 0) \<and>
   (\<forall>changed.
      sh (executed w) fetch_command = Inr 0 \<and>
      sh (executed w @ [fetch_command]) (shortstat_command release) = Inr 0 \<and>
      sh (executed w @ [fetch_command, shortstat_command release]) (diff_command release) = Inr changed \<and>
      changed \<noteq> 0 \<longrightarrow>
      fst (prepareBranch sh token context release w) = Inl (Error (diverged release)) \<and>
      started (prepareBranch sh token context release) w =
        [fetch_command, shortstat_command release, diff_command release] \<and>
      checkout_command release \<notin> set (started (prepareBranch sh token context release) w))"
proof (intro conjI impI allI)
  assume c: "checkout_command release \<in> set (started (prepareBranch sh token context release) w)"
  show "sh (executed w @ [fetch_command, shortstat_command release]) (diff_command release) = Inr 0"
  proof (rule ccontr)
    assume n: "sh (executed w @ [fetch_command, shortstat_command release]) (diff_command release) \<noteq> Inr 0"
    have "set (started (prepareBranch sh token context release) w)
            \<subseteq> {fetch_command, shortstat_command release, diff_command release}"
      using n unfolding started_def
      by (subst prepareBranch_steps) (simp split: sum.splits)
    moreover have "checkout_command release \<notin> {fetch_command, shortstat_command release, diff_command release}"
      by (simp add: branch_cmds)
    ultimately show False using c by blast
  qed
next
  fix changed
  assume a: "sh (executed w) fetch_command = Inr 0 \<and>
      sh (executed w @ [fetch_command]) (shortstat_command release) = Inr 0 \<and>
      sh (executed w @ [fetch_command, shortstat_command release]) (diff_command release) = Inr changed \<and>
      changed \<noteq> 0"
  then have r: "prepareBranch sh token context release w =
      (Inl (Error (diverged release)),
       after (after (after w fetch_command) (shortstat_command release)) (diff_command release))"
    by (subst prepareBranch_steps) simp
  show "fst (prepareBranch sh token context release w) = Inl (Error (diverged release))"
    by (simp add: r)
  show s: "started (prepareBranch sh token context release) w =
        [fetch_command, shortstat_command release, diff_command release]"
    by (simp add: r started_def)
  show "checkout_command release \<notin> set (started (prepareBranch sh token context release) w)"
    unfolding s by (simp add: branch_cmds)
qed

theorem prepareBranch_only_when_even_witness:
  "checkout_command ''v2.3.1'' \<in> set (started (prepareBranch all_succeed ''token'' octocat ''v2.3.1'') fresh) \<and>
   all_succeed (executed fresh @ [fetch_command, shortstat_command ''v2.3.1'']) (diff_command ''v2.3.1'') = Inr 0 \<and>
   main_moved (executed fresh @ [fetch_command, shortstat_command ''v2.3.1'']) (diff_command ''v2.3.1'') = Inr 1 \<and>
   fst (prepareBranch main_moved ''token'' octocat ''v2.3.1'' fresh) = Inl (Error (diverged ''v2.3.1'')) \<and>
   checkout_command ''v2.3.1'' \<notin> set (started (prepareBranch main_moved ''token'' octocat ''v2.3.1'') fresh)"
proof -
  have 1: "checkout_command ''v2.3.1'' \<in> set (started (prepareBranch all_succeed ''token'' octocat ''v2.3.1'') fresh)"
    by (simp add: started_def prepareBranch_all_succeed)
  have 2: "main_moved (executed fresh) fetch_command = Inr 0 \<and>
      main_moved (executed fresh @ [fetch_command]) (shortstat_command ''v2.3.1'') = Inr 0 \<and>
      main_moved (executed fresh @ [fetch_command, shortstat_command ''v2.3.1'']) (diff_command ''v2.3.1'') = Inr 1 \<and>
      (1::int) \<noteq> 0"
    by (simp add: main_moved_def branch_cmds)
  from prepareBranch_only_when_even [of "''v2.3.1''" all_succeed "''token''" octocat fresh] 1
  have a: "all_succeed (executed fresh @ [fetch_command, shortstat_command ''v2.3.1'']) (diff_command ''v2.3.1'') = Inr 0"
    by blast
  from prepareBranch_only_when_even [of "''v2.3.1''" main_moved "''token''" octocat fresh] 2
  have b: "fst (prepareBranch main_moved ''token'' octocat ''v2.3.1'' fresh) = Inl (Error (diverged ''v2.3.1'')) \<and>
   checkout_command ''v2.3.1'' \<notin> set (started (prepareBranch main_moved ''token'' octocat ''v2.3.1'') fresh)"
    by blast
  from 1 2 a b show ?thesis by blast
qed

text \<open>
  C9: the reference \<^verbatim>\<open>v2.3.1\<close> with the review type \<^verbatim>\<open>s\<close> parses to project 2,
  reviews 3, patches 1 and type \<^verbatim>\<open>Synchronous\<close>; whenever \<^verbatim>\<open>prepareBranch\<close> returns
  for a release it returns \<^verbatim>\<open>review/\<close> followed by the release, the branch its last
  command has checked out; for \<^verbatim>\<open>v2.3.1\<close> with every command succeeding that is
  \<^verbatim>\<open>review/v2.3.1\<close>.
\<close>

theorem reference_example:
  "parseProject ''s'' context ''v2.3.1'' =
     Inr \<lparr> d_type = ''Synchronous'', d_owner = owner context,
           d_mainRepo = owner context @ ''/'' @ repo context,
           d_testRepo = owner context @ ''/project-tests'',
           d_project = Num 2, d_reviews = Num 3, d_patches = Num 1, d_version = ''v2.3.1'' \<rparr> \<and>
   (\<forall>sh w b w'. prepareBranch sh token context release w = (Inr b, w') \<longrightarrow>
      b = ''review/'' @ release \<and> last (executed w') = checkout_command release) \<and>
   fst (prepareBranch all_succeed token context ''v2.3.1'' w) = Inr ''review/v2.3.1''"
proof (intro conjI allI impI)
  show "parseProject ''s'' context ''v2.3.1'' =
     Inr \<lparr> d_type = ''Synchronous'', d_owner = owner context,
           d_mainRepo = owner context @ ''/'' @ repo context,
           d_testRepo = owner context @ ''/project-tests'',
           d_project = Num 2, d_reviews = Num 3, d_patches = Num 1, d_version = ''v2.3.1'' \<rparr>"
    by (simp add: parseProject_def checkRequestType_def match_version_def Let_def
      is_digit_def unary_plus_def digits_value_def digit_value_def to_double_def testDir_def)
  show "fst (prepareBranch all_succeed token context ''v2.3.1'' w) = Inr ''review/v2.3.1''"
    by (simp add: prepareBranch_all_succeed)
next
  fix sh w b w'
  assume "prepareBranch sh token context release w = (Inr b, w')"
  then show "b = ''review/'' @ release" "last (executed w') = checkout_command release"
    using prepareBranch_Inr by blast+
qed

theorem reference_example_witness:
  "prepareBranch all_succeed ''token'' octocat ''v2.3.1'' fresh =
     (Inr ''review/v2.3.1'', snd (prepareBranch all_succeed ''token'' octocat ''v2.3.1'' fresh)) \<and>
   last (executed (snd (prepareBranch all_succeed ''token'' octocat ''v2.3.1'' fresh))) =
     checkout_command ''v2.3.1''"
proof -
  have p: "prepareBranch all_succeed ''token'' octocat ''v2.3.1'' fresh =
     (Inr ''review/v2.3.1'', snd (prepareBranch all_succeed ''token'' octocat ''v2.3.1'' fresh))"
    by (simp add: prepareBranch_all_succeed)
  from reference_example [of octocat "''token''" "''v2.3.1''"] p show ?thesis by blast
qed

subsection \<open>The text scans of the request sequence\<close>

lemmas scan_cmds = todo_grep_def main_grep_def

lemma checkCleanup_steps:
  "checkCleanup sh w =
     (case sh (executed w) todo_grep of
        Inl e \<Rightarrow> (Inl e, after w todo_grep)
      | Inr todo \<Rightarrow>
          if todo \<noteq> 1 then (Inl (Error todo_found), after w todo_grep)
          else (case sh (executed w @ [todo_grep]) main_grep of
                  Inl e \<Rightarrow> (Inl e, after (after w todo_grep) main_grep)
                | Inr main \<Rightarrow>
                    if main \<noteq> 1 then (Inl (Error main_found), after (after w todo_grep) main_grep)
                    else (Inr (todo, main), after (after w todo_grep) main_grep)))"
  unfolding checkCleanup_def
  apply (subst and_then_checkExec)
  apply (simp only: command_of_simps settings.simps option.simps option.sel if_distribR throw_def
      flip: scan_cmds)
  apply (subst and_then_checkExec)
  apply (simp only: command_of_simps flip: scan_cmds)
  apply (simp only: settings.simps option.simps option.sel if_distribR throw_def ret_def
      executed_after append_assoc append.simps)
  apply (simp split: sum.splits)
  done

lemma and_then_assoc:
  "and_then (and_then m f) g = and_then m (\<lambda>a. and_then (f a) g)"
  by (auto simp: and_then_def fun_eq_iff split: prod.splits sum.splits)

lemma and_then_ret: "and_then (ret a) f = f a"
  by (auto simp: and_then_def ret_def fun_eq_iff)

lemma requestVerify_steps:
  "requestVerify sh =
     and_then (beforeCleanup sh) (\<lambda>(states, compiled).
     and_then (checkCleanup sh) (\<lambda>(todo, main).
     ret (states, \<lparr> mainCompile = compiled, todoGrep = todo, mainGrep = main \<rparr>)))"
  by (simp add: requestVerify_def beforeCleanup_def and_then_assoc and_then_ret)

lemma restoreStates_fresh: "restoreStates states fresh = Inr states"
  by (simp add: restoreStates_def getState_def fresh_def)

lemma beforeCleanup_quiet:
  assumes "\<And>h c. tool c \<noteq> ''grep'' \<Longrightarrow> sh h c = Inr 0"
  shows "\<exists>w. beforeCleanup sh fresh = (Inr ([], 0), w) \<and> length (executed w) = 5"
  unfolding beforeCleanup_def displayEnvironment_def checkCompile_def
  apply (subst and_then_def)
  apply (simp only: restoreStates_fresh prod.case sum.case and_then_assoc)
  apply (simp add: and_then_checkExec command_of_simps assms ret_def and_then_ret fresh_def)
  done

text \<open>
  C4: once the steps before the scans have succeeded, the request sequence is decided by
  the integers the two scans answer. If the TODO scan answers anything but 1 the
  sequence throws \<^verbatim>\<open>One or more TODO comments found...\<close> and the second scan is not started;
  if it answers 1 the second scan is started, and an answer other than 1 throws
  \<^verbatim>\<open>More than one main method found...\<close>, while the answer 1 lets the sequence go on to
  the approve phase. Both tests are equalities with 1.
\<close>

theorem text_scan_gates:
  assumes "beforeCleanup sh w0 = (Inr (states, compiled), w)"
      and "sh (executed w) todo_grep = Inr todo"
  shows "(todo \<noteq> 1 \<longrightarrow>
            requestVerify sh w0 = (Inl (Error todo_found), after w todo_grep)) \<and>
         (todo = 1 \<longrightarrow>
            (\<forall>main. sh (executed w @ [todo_grep]) main_grep = Inr main \<longrightarrow>
               (main \<noteq> 1 \<longrightarrow>
                  requestVerify sh w0 =
                    (Inl (Error main_found), after (after w todo_grep) main_grep)) \<and>
               (main = 1 \<longrightarrow>
                  requestVerify sh w0 =
                    (Inr (states, \<lparr> mainCompile = compiled, todoGrep = 1, mainGrep = 1 \<rparr>),
                     after (after w todo_grep) main_grep))))"
  using assms
  by (simp add: requestVerify_steps and_then_def checkCleanup_steps ret_def)

theorem text_scan_gates_witness:
  "(\<exists>w. beforeCleanup scans_one fresh = (Inr ([], 0), w) \<and>
        scans_one (executed w) todo_grep = Inr 1 \<and>
        scans_one (executed w @ [todo_grep]) main_grep = Inr 1 \<and>
        requestVerify scans_one fresh =
          (Inr ([], \<lparr> mainCompile = 0, todoGrep = 1, mainGrep = 1 \<rparr>),
           after (after w todo_grep) main_grep)) \<and>
   (\<exists>w. beforeCleanup all_succeed fresh = (Inr ([], 0), w) \<and>
        all_succeed (executed w) todo_grep = Inr 0 \<and>
        requestVerify all_succeed fresh = (Inl (Error todo_found), after w todo_grep))"
proof -
  obtain w where w: "beforeCleanup scans_one fresh = (Inr ([], 0), w)"
    using beforeCleanup_quiet [of scans_one] by (auto simp: scans_one_def)
  have t: "scans_one (executed w) todo_grep = Inr 1"
    and m: "scans_one (executed w @ [todo_grep]) main_grep = Inr 1"
    by (simp_all add: scans_one_def scan_cmds)
  obtain v where v: "beforeCleanup all_succeed fresh = (Inr ([], 0), v)"
    using beforeCleanup_quiet [of all_succeed] by (auto simp: all_succeed_def)
  have z: "all_succeed (executed v) todo_grep = Inr 0"
    by (simp add: all_succeed_def)
  from text_scan_gates [OF w t] m
  have 1: "requestVerify scans_one fresh =
          (Inr ([], \<lparr> mainCompile = 0, todoGrep = 1, mainGrep = 1 \<rparr>),
           after (after w todo_grep) main_grep)"
    by blast
  from text_scan_gates [OF v z]
  have 2: "requestVerify all_succeed fresh = (Inl (Error todo_found), after v todo_grep)"
    by simp
  from w t m 1 v z 2 show ?thesis by blast
qed

subsection \<open>Release verification\<close>

lemmas text_eval = show_int_def show_nat.simps digit_char_def toLowerCase_def lower_char_def

lemmas verify_eval = verifyRelease_def fetchRelease_def findRun_def runs_api_def no_api_def
  push_run_def failed_push_run_def release_run_def test_runs_def

text \<open>
  C1 says that the run is searched among the runs of the test workflow for the release
  event. The code searches all listed runs: with a single successful run of another
  workflow on the tag, \<^verbatim>\<open>verifyRelease\<close> succeeds and returns that run although the
  filter keeps no run; with a failed run of another workflow listed before the successful
  test run, it fails although the filter keeps the successful test run.
\<close>

theorem verifyRelease_searches_all_runs:
  "verifyRelease (runs_api [push_run]) octocat ''v1.0.0'' =
     Inr \<lparr> v_release = tag_release, v_workflow = push_run \<rparr> \<and>
   test_runs [push_run] = [] \<and>
   verifyRelease (runs_api [failed_push_run, release_run]) octocat ''v1.0.0'' =
     Inl (Error ''Unable to verify release v1.0.0 (run #7 id 1001 not successful).'') \<and>
   test_runs [failed_push_run, release_run] = [release_run]"
  by (simp add: verify_eval text_eval)

subsection \<open>Issues and pull requests before a request\<close>

lemma getIssues_label:
  "getIssues (issues_api f d s a) context ''2'' type =
     Inr (if toLowerCase type = ''functionality'' then f
          else if toLowerCase type = ''design'' then d
          else if toLowerCase type = ''synchronous'' then s
          else if toLowerCase type = ''asynchronous'' then a
          else [])"
  by (simp add: getIssues_def issues_api_def no_api_def)

text \<open>
  C2, as stated, fails: with two approved functionality issues \<^verbatim>\<open>checkIssues\<close> succeeds
  and returns the first.
\<close>

theorem checkIssues_two_approved_counterexample:
  "checkIssues (issues_api [first_passed, second_passed] [] [] []) octocat ''2'' =
     Inr \<lparr> issueNumber = 11, issueUrl = ''https://github.com/octocat/search-engine/issues/11'' \<rparr> \<and>
   filter approved [first_passed, second_passed] = [first_passed, second_passed]"
  by (simp add: checkIssues_def getIssues_label text_eval approved_def first_passed_def second_passed_def)

text \<open>
  C2, amended: when the four queries answer, \<^verbatim>\<open>checkIssues\<close> succeeds exactly when at
  least one functionality issue is approved (closed, locked, lock reason resolved), no
  design issue is approved, and no entry of the synchronous and asynchronous results is
  an open pull request (state open, with a \<^verbatim>\<open>pull_request\<close> entry that has an
  \<^verbatim>\<open>html_url\<close>); otherwise it throws. On success it returns the number and the url of
  the first approved functionality issue.
\<close>

theorem checkIssues_gate:
  assumes "getIssues octokit context project ''functionality'' = Inr funIssues"
      and "getIssues octokit context project ''design'' = Inr desIssues"
      and "getIssues octokit context project ''synchronous'' = Inr syncPulls"
      and "getIssues octokit context project ''asynchronous'' = Inr asyncPulls"
  shows "((\<exists>r. checkIssues octokit context project = Inr r) \<longleftrightarrow>
           (\<exists>x \<in> set funIssues. approved x) \<and>
           (\<forall>x \<in> set desIssues. \<not> approved x) \<and>
           (\<forall>x \<in> set (syncPulls @ asyncPulls). \<not> open_pull x)) \<and>
         ((\<exists>e. checkIssues octokit context project = Inl e) \<longleftrightarrow>
           \<not> ((\<exists>x \<in> set funIssues. approved x) \<and>
              (\<forall>x \<in> set desIssues. \<not> approved x) \<and>
              (\<forall>x \<in> set (syncPulls @ asyncPulls). \<not> open_pull x))) \<and>
         (\<forall>r. checkIssues octokit context project = Inr r \<longrightarrow>
           (\<exists>x. find approved funIssues = Some x \<and>
                r = \<lparr> issueNumber = number x, issueUrl = html_url x \<rparr>))"
proof -
  have f: "(\<exists>x \<in> set funIssues. approved x) = (find approved funIssues \<noteq> None)"
    by (auto simp: find_None_iff)
  have d: "(\<forall>x \<in> set desIssues. \<not> approved x) = (find approved desIssues = None)"
    by (auto simp: find_None_iff)
  have p: "(\<forall>x \<in> set (syncPulls @ asyncPulls). \<not> open_pull x) =
      (find open_pull (syncPulls @ asyncPulls) = None)"
    by (auto simp only: find_None_iff)
  show ?thesis
    unfolding checkIssues_def assms sum.case Let_def f d p
    by (auto split: option.splits)
qed

theorem checkIssues_gate_witness:
  "checkIssues (issues_api [first_passed] [] [] []) octocat ''2'' =
     Inr \<lparr> issueNumber = number first_passed, issueUrl = html_url first_passed \<rparr> \<and>
   approved first_passed"
proof -
  let ?api = "issues_api [first_passed] [] [] []"
  have q: "getIssues ?api octocat ''2'' ''functionality'' = Inr [first_passed]"
    "getIssues ?api octocat ''2'' ''design'' = Inr []"
    "getIssues ?api octocat ''2'' ''synchronous'' = Inr []"
    "getIssues ?api octocat ''2'' ''asynchronous'' = Inr []"
    by (simp_all add: getIssues_label text_eval)
  have a: "approved first_passed"
    by (simp add: approved_def first_passed_def)
  from checkIssues_gate [OF q] a
  have "\<exists>r. checkIssues ?api octocat ''2'' = Inr r \<and>
     (\<exists>x. find approved [first_passed] = Some x \<and>
          r = \<lparr> issueNumber = number x, issueUrl = html_url x \<rparr>)"
    by auto
  with a show ?thesis by auto
qed

subsection \<open>Status checks of the forge calls\<close>

text \<open>
  The helpers compare the status of a response with the expected one. A listing of
  issues or pull requests with another status ends in the helper's own error, and the
  status 404 of the pull-request listing in a warning and an empty list.
\<close>

lemma getIssues_status:
  assumes "listForRepo octokit (owner context) (repo context)
             (''project'' @ project @ '','' @ toLowerCase type) ''all'' = Inr result"
      and "status result \<noteq> 200"
  shows "getIssues octokit context project type =
           Inl (Error (''Unable to list issues from: '' @ repo context))"
  using assms by (simp add: getIssues_def)

lemma getPullRequests_status:
  assumes "pulls_list octokit (owner context) (repo context) ''all'' ''created'' = Inr result"
  shows "status result = 404 \<Longrightarrow>
           getPullRequests octokit context project w = (Inr [], w\<lparr>warnings := warnings w + 1\<rparr>)"
    and "status result \<noteq> 404 \<Longrightarrow> status result \<noteq> 200 \<Longrightarrow>
           getPullRequests octokit context project w =
             (Inl (Error (''Unable to list pull requests in: '' @ repo context)), w)"
  using assms by (simp_all add: getPullRequests_def showWarning_def)

lemma getMilestone_status:
  assumes "listMilestones octokit (owner context) (repo context) = Inr milestones"
      and "status milestones \<noteq> 200"
  shows "getMilestone octokit context project = Inl (ReferenceError ''SON is not defined'')"
  using assms by (simp add: getMilestone_def)

text \<open>
  C8 says that every helper answers a status other than the expected one with its
  descriptive error. \<^verbatim>\<open>getMilestone\<close> does not: when the listing of milestones has
  the status 500 it throws the reference error of the undeclared \<^verbatim>\<open>SON\<close>, not
  \<^verbatim>\<open>Unable to list milestones in: ...\<close>, while the listings of issues and of pull
  requests throw their own errors for the same status.
\<close>

theorem getMilestone_listing_status:
  "getMilestone failing_api octocat ''2'' = Inl (ReferenceError ''SON is not defined'') \<and>
   getMilestone failing_api octocat ''2'' \<noteq> Inl (Error ''Unable to list milestones in: search-engine'') \<and>
   getIssues failing_api octocat ''2'' ''design'' = Inl (Error ''Unable to list issues from: search-engine'') \<and>
   fst (getPullRequests failing_api octocat ''2'' fresh) =
     Inl (Error ''Unable to list pull requests in: search-engine'')"
  by (simp add: getMilestone_def getIssues_def getPullRequests_def failing_api_def no_api_def octocat_def)

subsection \<open>The label column\<close>

text \<open>
  On the three labels of the example the comparator is a strict order on distinct
  labels: \<^verbatim>\<open>project3\<close> before \<^verbatim>\<open>v1.2.0\<close> before \<^verbatim>\<open>zzz\<close>. There is one arrangement of
  the labels in which every label compares before the later ones, so the result does not
  depend on how the engine sorts, as long as it compares distinct elements only.
\<close>

lemmas label_defs = tag_label_def project_label_def other_label_def bug_label_def

lemma sorter_table:
  "sorter project_label tag_label = - 1" "sorter project_label other_label = - 1"
  "sorter tag_label other_label = - 1" "sorter tag_label project_label = 1"
  "sorter other_label project_label = 1" "sorter other_label tag_label = 1"
  by (simp_all add: sorter_def startsWith_def label_defs)

lemma labels_differ:
  "tag_label \<noteq> project_label" "tag_label \<noteq> other_label" "project_label \<noteq> other_label"
  by (simp_all add: label_defs)

lemma sort_example:
  "sort_js sorter [tag_label, project_label, other_label] = [project_label, tag_label, other_label]"
  by (simp add: sort_js_def insert_pivot_def binary_place.simps sorter_table)

lemma only_order:
  assumes d: "distinct ys" and s: "set ys = set [tag_label, project_label, other_label]"
    and o: "ordered sorter ys"
  shows "ys = [project_label, tag_label, other_label]"
proof -
  have "length ys = card (set ys)" using d by (simp add: distinct_card)
  also have "\<dots> = 3" unfolding s using labels_differ by simp
  finally obtain a b c where ys: "ys = [a, b, c]"
    by (auto simp: numeral_3_eq_3 length_Suc_conv)
  have m: "a \<in> {tag_label, project_label, other_label}"
    "b \<in> {tag_label, project_label, other_label}"
    "c \<in> {tag_label, project_label, other_label}"
    using s unfolding ys by auto
  have n: "a \<noteq> b" "a \<noteq> c" "b \<noteq> c" using d unfolding ys by auto
  have lt: "sorter a b < 0" "sorter a c < 0" "sorter b c < 0"
    using o unfolding ys ordered_def by auto
  show ?thesis
    using m n lt unfolding ys by (auto simp: sorter_table)
qed

text \<open>
  C7: sorting the labels \<^verbatim>\<open>v1.2.0\<close>, \<^verbatim>\<open>project3\<close>, \<^verbatim>\<open>zzz\<close> with the comparator of the
  pull-request table gives \<^verbatim>\<open>project3\<close>, \<^verbatim>\<open>v1.2.0\<close>, \<^verbatim>\<open>zzz\<close>, which is the only
  arrangement ordered by the comparator. The comparator puts a name that starts with
  \<^verbatim>\<open>project\<close> first, then a name that starts with \<^verbatim>\<open>v\<close>; for two names with neither
  prefix it returns 0 when they are equal and -1 when they differ, whichever comes first.
\<close>

theorem label_sort:
  "map name (sort_js sorter [tag_label, project_label, other_label]) =
     [''project3'', ''v1.2.0'', ''zzz''] \<and>
   labelColumn labelled_pull = ''project3, v1.2.0, zzz'' \<and>
   (\<forall>ys. distinct ys \<and> set ys = set [tag_label, project_label, other_label] \<and>
         ordered sorter ys \<longrightarrow> ys = [project_label, tag_label, other_label]) \<and>
   (\<forall>x y. startsWith (name x) ''project'' \<longrightarrow> sorter x y = - 1) \<and>
   (\<forall>x y. \<not> startsWith (name x) ''project'' \<and> startsWith (name y) ''project'' \<longrightarrow>
          sorter x y = 1) \<and>
   (\<forall>x y. \<not> startsWith (name x) ''project'' \<and> \<not> startsWith (name y) ''project'' \<and>
          startsWith (name x) ''v'' \<longrightarrow> sorter x y = - 1) \<and>
   (\<forall>x y. \<not> startsWith (name x) ''project'' \<and> \<not> startsWith (name y) ''project'' \<and>
          \<not> startsWith (name x) ''v'' \<and> startsWith (name y) ''v'' \<longrightarrow> sorter x y = 1) \<and>
   (\<forall>x y. \<not> startsWith (name x) ''project'' \<and> \<not> startsWith (name y) ''project'' \<and>
          \<not> startsWith (name x) ''v'' \<and> \<not> startsWith (name y) ''v'' \<longrightarrow>
          sorter x y = (if name x = name y then 0 else - 1))"
proof (intro conjI allI impI)
  show "map name (sort_js sorter [tag_label, project_label, other_label]) =
     [''project3'', ''v1.2.0'', ''zzz'']"
    by (simp add: sort_example) (simp add: label_defs)
  show "labelColumn labelled_pull = ''project3, v1.2.0, zzz''"
    by (simp add: labelColumn_def labelled_pull_def sort_example) (simp add: label_defs)
next
  fix ys
  assume "distinct ys \<and> set ys = set [tag_label, project_label, other_label] \<and> ordered sorter ys"
  then show "ys = [project_label, tag_label, other_label]"
    using only_order by blast
next
  fix x y :: label
  assume "\<not> startsWith (name x) ''project'' \<and> \<not> startsWith (name y) ''project'' \<and>
          \<not> startsWith (name x) ''v'' \<and> \<not> startsWith (name y) ''v''"
  then show "sorter x y = (if name x = name y then 0 else - 1)"
    by (auto simp: sorter_def)
qed (simp_all add: sorter_def)

theorem label_sort_witness:
  "ordered sorter [project_label, tag_label, other_label] \<and>
   sorter project_label tag_label = - 1 \<and>
   sorter tag_label project_label = 1 \<and>
   sorter tag_label other_label = - 1 \<and>
   sorter other_label tag_label = 1 \<and>
   sorter bug_label other_label = - 1 \<and>
   sorter other_label bug_label = - 1 \<and>
   sorter other_label other_label = 0"
proof -
  have o: "ordered sorter [project_label, tag_label, other_label]"
    by (simp add: ordered_def sorter_table)
  have p: "startsWith (name project_label) ''project''"
    "\<not> startsWith (name tag_label) ''project''" "\<not> startsWith (name other_label) ''project''"
    "\<not> startsWith (name bug_label) ''project''"
    by (simp_all add: startsWith_def label_defs)
  have v: "startsWith (name tag_label) ''v''"
    "\<not> startsWith (name other_label) ''v''" "\<not> startsWith (name bug_label) ''v''"
    by (simp_all add: startsWith_def label_defs)
  have n: "name bug_label \<noteq> name other_label"
    by (simp add: label_defs)
  from label_sort have
    1: "\<forall>x y. startsWith (name x) ''project'' \<longrightarrow> sorter x y = - 1" and
    2: "\<forall>x y. \<not> startsWith (name x) ''project'' \<and> startsWith (name y) ''project'' \<longrightarrow>
          sorter x y = 1" and
    3: "\<forall>x y. \<not> startsWith (name x) ''project'' \<and> \<not> startsWith (name y) ''project'' \<and>
          startsWith (name x) ''v'' \<longrightarrow> sorter x y = - 1" and
    4: "\<forall>x y. \<not> startsWith (name x) ''project'' \<and> \<not> startsWith (name y) ''project'' \<and>
          \<not> startsWith (name x) ''v'' \<and> startsWith (name y) ''v'' \<longrightarrow> sorter x y = 1" and
    5: "\<forall>x y. \<not> startsWith (name x) ''project'' \<and> \<not> startsWith (name y) ''project'' \<and>
          \<not> startsWith (name x) ''v'' \<and> \<not> startsWith (name y) ''v'' \<longrightarrow>
          sorter x y = (if name x = name y then 0 else - 1)"
    by blast+
  from 1 p have a: "sorter project_label tag_label = - 1" by blast
  from 2 p have b: "sorter tag_label project_label = 1" by blast
  from 3 p v have c: "sorter tag_label other_label = - 1" by blast
  from 4 p v have d: "sorter other_label tag_label = 1" by blast
  from 5 p v n have e: "sorter bug_label other_label = - 1" "sorter other_label bug_label = - 1"
    "sorter other_label other_label = 0"
    by simp_all
  from o a b c d e show ?thesis by blast
qed

subsection \<open>The serialized list of keys\<close>

text \<open>
  The length test in \<^const>\<open>parse_elements\<close> is there for the termination of the definition
  only: what follows a parsed string is always shorter than the text.
\<close>

lemma parse_chars_shorter:
  "parse_chars s = Some (k, rest) \<Longrightarrow> length rest < length s"
proof (induction s arbitrary: k rest rule: parse_chars.induct)
  case 1
  then show ?case by simp
next
  case (2 c)
  then show ?case by (simp split: if_splits)
next
  case (3 c e cs)
  show ?case
  proof (cases "c = CHR 0x22")
    case True
    with "3.prems" show ?thesis by simp
  next
    case q: False
    show ?thesis
    proof (cases "c = CHR 0x5C")
      case b: True
      show ?thesis
      proof (cases "e = CHR ''u''")
        case u: True
        from "3.prems" q b u obtain a1 a2 a3 a4 cs' ch k' where
          cs: "cs = a1 # a2 # a3 # a4 # cs'" and h: "hex4 a1 a2 a3 a4 = Some ch"
          and r: "parse_chars cs' = Some (k', rest)"
          by (auto simp: consed_def split: list.splits option.splits)
        from "3.IH"(1) [OF q b u cs refl refl refl h r] show ?thesis using cs by simp
      next
        case u: False
        from "3.prems" q b u obtain ch k' where h: "escaped e = Some ch"
          and r: "parse_chars cs = Some (k', rest)"
          by (auto simp: consed_def split: option.splits)
        from "3.IH"(2) [OF q b u h r] show ?thesis by simp
      qed
    next
      case b: False
      from "3.prems" q b obtain k' where n: "\<not> (of_char c :: nat) < 32"
        and r: "parse_chars (e # cs) = Some (k', rest)"
        by (auto simp: consed_def split: if_splits option.splits)
      from "3.IH"(3) [OF q b n r] show ?thesis by simp
    qed
  qed
qed

lemma skip_space_length: "length (skip_space s) \<le> length s"
  by (simp add: skip_space_def length_dropWhile_le)

lemma parse_elements_unguarded:
  "parse_elements s =
     (case skip_space s of
        [] \<Rightarrow> None
      | q # body \<Rightarrow>
          if q \<noteq> CHR 0x22 then None
          else (case parse_chars body of
                  None \<Rightarrow> None
                | Some (k, rest) \<Rightarrow>
                    (case skip_space rest of
                       [] \<Rightarrow> None
                     | t # rest' \<Rightarrow>
                         if t = CHR '']'' then Some ([k], rest')
                         else if t = CHR '','' then
                           (case parse_elements rest' of
                              None \<Rightarrow> None
                            | Some (ks, rest'') \<Rightarrow> Some (k # ks, rest''))
                         else None)))"
proof -
  have "length rest' < length s"
    if "skip_space s = q # body" "parse_chars body = Some (k, rest)" "skip_space rest = t # rest'"
    for q body k rest t rest'
  proof -
    have "length rest' < length (skip_space rest)" using that(3) by simp
    also have "\<dots> \<le> length rest" by (rule skip_space_length)
    also have "\<dots> < length body" using that(2) by (rule parse_chars_shorter)
    also have "\<dots> < length (skip_space s)" using that(1) by simp
    also have "\<dots> \<le> length s" by (rule skip_space_length)
    finally show ?thesis .
  qed
  then show ?thesis
    by (subst parse_elements.simps) (auto split: list.splits option.splits)
qed

text \<open>Parsing the serialization of a list of strings gives the list back.\<close>

lemma hex_value_table: "list_all (\<lambda>d. hex_value (hex_digit d) = Some d) [0..<16]"
  by code_simp

lemma hex_value_hex_digit: "d < 16 \<Longrightarrow> hex_value (hex_digit d) = Some d"
  using hex_value_table by (simp add: list_all_iff)

lemma hex4_control:
  assumes "(of_char c :: nat) < 32"
  shows "hex4 CHR ''0'' CHR ''0'' (hex_digit (of_char c div 16)) (hex_digit (of_char c mod 16)) = Some c"
proof -
  have a: "hex_value (hex_digit (of_char c div 16)) = Some (of_char c div 16)"
    using assms by (intro hex_value_hex_digit) auto
  have b: "hex_value (hex_digit (of_char c mod 16)) = Some (of_char c mod 16)"
    by (intro hex_value_hex_digit) auto
  have z: "hex_value CHR ''0'' = Some 0" by (simp add: hex_value_def)
  show ?thesis
    by (simp add: hex4_def a b z)
qed

lemma parse_chars_quote: "parse_chars (CHR 0x22 # rest) = Some ([], rest)"
  by (cases rest) simp_all

lemma parse_chars_plain:
  assumes "c \<noteq> CHR 0x22" "c \<noteq> CHR 0x5C" "\<not> (of_char c :: nat) < 32"
  shows "parse_chars (c # rest) = consed c (parse_chars rest)"
  using assms by (cases rest) (simp_all add: consed_def)

lemma parse_chars_escape:
  assumes "e \<noteq> CHR ''u''" "escaped e = Some ch"
  shows "parse_chars (CHR 0x5C # e # rest) = consed ch (parse_chars rest)"
  using assms by simp

lemma parse_chars_unicode:
  assumes "hex4 a b c d = Some ch"
  shows "parse_chars (CHR 0x5C # CHR ''u'' # a # b # c # d # rest) = consed ch (parse_chars rest)"
  using assms by simp

lemma parse_chars_quote_char:
  "parse_chars (quote_char c @ rest) = consed c (parse_chars rest)"
proof -
  consider "c = CHR 0x22" | "c = CHR 0x5C" | "c = CHR 0x08" | "c = CHR 0x0C" | "c = CHR 0x0A"
    | "c = CHR 0x0D" | "c = CHR 0x09"
    | "c \<notin> {CHR 0x22, CHR 0x5C, CHR 0x08, CHR 0x0C, CHR 0x0A, CHR 0x0D, CHR 0x09}" "(of_char c :: nat) < 32"
    | "c \<notin> {CHR 0x22, CHR 0x5C, CHR 0x08, CHR 0x0C, CHR 0x0A, CHR 0x0D, CHR 0x09}" "\<not> (of_char c :: nat) < 32"
    by blast
  then show ?thesis
  proof cases
    case 8
    then show ?thesis
      using parse_chars_unicode [OF hex4_control [of c]]
      by (simp add: quote_char_def)
  next
    case 9
    then show ?thesis
      using parse_chars_plain [of c rest]
      by (simp add: quote_char_def)
  qed (simp_all add: quote_char_def escaped_def)
qed

lemma parse_chars_body:
  "parse_chars (concat (map quote_char s) @ CHR 0x22 # rest) = Some (s, rest)"
  by (induction s) (simp_all add: parse_chars_quote parse_chars_quote_char consed_def)

lemma skip_space_quote: "skip_space (CHR 0x22 # s) = CHR 0x22 # s"
  by (simp add: skip_space_def is_space_def)

lemma skip_space_close: "skip_space (CHR '']'' # s) = CHR '']'' # s"
  by (simp add: skip_space_def is_space_def)

lemma skip_space_comma: "skip_space (CHR '','' # s) = CHR '','' # s"
  by (simp add: skip_space_def is_space_def)

lemma join_Cons: "ys \<noteq> [] \<Longrightarrow> join sep (x # ys) = x @ sep @ join sep ys"
  by (cases ys) simp_all

lemma parse_elements_quoted:
  "parse_elements (quote k @ rest) =
     (case skip_space rest of
        [] \<Rightarrow> None
      | t # rest' \<Rightarrow>
          if t = CHR '']'' then Some ([k], rest')
          else if t = CHR '','' \<and> length rest' < length (quote k @ rest) then
            (case parse_elements rest' of
               None \<Rightarrow> None
             | Some (ks, rest'') \<Rightarrow> Some (k # ks, rest''))
          else None)"
  apply (subst parse_elements.simps)
  apply (simp only: quote_def append.simps skip_space_quote list.case)
  apply (simp add: parse_chars_body)
  done

lemma parse_elements_join:
  "ks \<noteq> [] \<Longrightarrow> parse_elements (join '','' (map quote ks) @ CHR '']'' # rest) = Some (ks, rest)"
proof (induction ks rule: list_nonempty_induct)
  case (single k)
  show ?case
    by (simp add: parse_elements_quoted skip_space_close)
next
  case (cons k ks)
  have j: "join '','' (map quote (k # ks)) @ CHR '']'' # rest =
      quote k @ CHR '','' # (join '','' (map quote ks) @ CHR '']'' # rest)"
    using cons.hyps by (simp add: join_Cons)
  have l: "length (join '','' (map quote ks) @ CHR '']'' # rest) <
      length (quote k @ CHR '','' # (join '','' (map quote ks) @ CHR '']'' # rest))"
    by simp
  show ?case
    unfolding j
    apply (subst parse_elements_quoted)
    apply (simp only: skip_space_comma list.case l cons.IH)
    apply simp
    done
qed

lemma join_quote_starts:
  "ks \<noteq> [] \<Longrightarrow> \<exists>s. join '','' (map quote ks) = CHR 0x22 # s"
  by (cases ks; cases "tl ks") (auto simp: quote_def)

lemma JSON_parse_stringify: "JSON_parse (JSON_stringify ks) = Some ks"
proof (cases "ks = []")
  case True
  then show ?thesis
    by (simp add: JSON_parse_def JSON_stringify_def skip_space_def is_space_def)
next
  case False
  then obtain s where s: "join '','' (map quote ks) = CHR 0x22 # s"
    using join_quote_starts by blast
  have p: "parse_elements (CHR 0x22 # s @ '']'') = Some (ks, [])"
    using parse_elements_join [OF False, of "[]"] unfolding s by simp
  have o: "skip_space (CHR ''['' # t) = CHR ''['' # t" for t
    by (simp add: skip_space_def is_space_def)
  show ?thesis
    unfolding JSON_parse_def JSON_stringify_def s
    by (simp add: o skip_space_quote p) (simp add: skip_space_def)
qed

lemma JSON_stringify_nonempty: "JSON_stringify ks \<noteq> []"
  by (simp add: JSON_stringify_def)

subsection \<open>Saving and restoring states\<close>

lemma saved_state_saveState: "saved_state (saveState k v w) = (saved_state w)(k \<mapsto> v)"
  by (simp add: saveState_def)

lemma saved_state_foldl:
  "saved_state (foldl (\<lambda>w' (state, v). saveState state v w') w kvs) =
     saved_state w ++ map_of (rev kvs)"
proof (induction kvs arbitrary: w)
  case Nil
  show ?case by simp
next
  case (Cons kv kvs)
  obtain k v where kv: "kv = (k, v)" by (cases kv)
  have "saved_state (saveState k v w) ++ map_of (rev kvs) =
      saved_state w ++ (map_of [(k, v)] ++ map_of (rev kvs))"
    by (simp add: saved_state_saveState fun_eq_iff map_add_def split: option.splits)
  then show ?case
    by (simp add: Cons.IH kv)
qed

lemma getState_saveStates_keys:
  "getState (saveStates states w) ''keys'' = JSON_stringify (map fst states)"
  by (simp add: getState_def saveStates_def saved_state_saveState)

lemma getState_saveStates:
  assumes "distinct (map fst states)" "(k, v) \<in> set states" "k \<noteq> ''keys''"
  shows "getState (saveStates states w) k = v"
proof -
  have "distinct (map fst (rev states))" using assms(1) by (simp add: rev_map [symmetric])
  then have "map_of (rev states) k = Some v" using assms(2) by simp
  then show ?thesis
    using assms(3)
    by (simp add: getState_def saveStates_def saved_state_saveState saved_state_foldl)
qed

lemma update_new: "k \<notin> fst ` set al \<Longrightarrow> AList.update k v al = al @ [(k, v)]"
  by (induction al) auto

lemma restore_loop:
  assumes "distinct (map fst (acc @ rest))" "''__proto__'' \<notin> fst ` set rest"
    and "\<And>k v. (k, v) \<in> set rest \<Longrightarrow> getState w k = v"
  shows "foldl (\<lambda>states' key. assign key (getState w key) states') acc (map fst rest) = acc @ rest"
  using assms
proof (induction rest arbitrary: acc)
  case Nil
  show ?case by simp
next
  case (Cons kv rest)
  obtain k v where kv: "kv = (k, v)" by (cases kv)
  have g: "getState w k = v" using Cons.prems(3) kv by simp
  have n: "k \<notin> fst ` set acc" using Cons.prems(1) kv by auto
  have p: "k \<noteq> ''__proto__''" using Cons.prems(2) kv by auto
  have a: "assign k (getState w k) acc = acc @ [(k, v)]"
    using n p g by (simp add: assign_def update_new)
  have "foldl (\<lambda>states' key. assign key (getState w key) states') (acc @ [(k, v)]) (map fst rest) =
      (acc @ [(k, v)]) @ rest"
    using Cons.prems kv by (intro Cons.IH) auto
  then show ?case
    by (simp add: kv a)
qed

lemma restore_saved:
  assumes "distinct (map fst states)" "''keys'' \<notin> set (map fst states)"
    "''__proto__'' \<notin> set (map fst states)"
  shows "restoreStates [] (saveStates states w) = Inr states"
proof -
  have "foldl (\<lambda>states' key. assign key (getState (saveStates states w) key) states') []
      (map fst states) = [] @ states"
  proof (rule restore_loop)
    show "distinct (map fst ([] @ states))" using assms(1) by simp
    show "''__proto__'' \<notin> fst ` set states" using assms(3) by simp
    fix k v
    assume kv: "(k, v) \<in> set states"
    then have "k \<noteq> ''keys''" using assms(2) by force
    then show "getState (saveStates states w) k = v"
      using getState_saveStates [OF assms(1) kv] by simp
  qed
  then show ?thesis
    by (simp add: restoreStates_def getState_saveStates_keys JSON_stringify_nonempty JSON_parse_stringify)
qed

text \<open>
  C6, as stated, fails for two keys. A value saved under the key \<^verbatim>\<open>keys\<close> is overwritten
  by the serialized list of keys, which is what the restored mapping then holds; a
  value saved under \<^verbatim>\<open>__proto__\<close> is not assigned on restoring.
\<close>

theorem states_reserved_key_counterexample:
  "restoreStates [] (saveStates [(''keys'', ''x'')] fresh) = Inr [(''keys'', ''[\"keys\"]'')] \<and>
   restoreStates [] (saveStates [(''keys'', ''x'')] fresh) \<noteq> Inr [(''keys'', ''x'')] \<and>
   restoreStates [] (saveStates [(''__proto__'', ''x'')] fresh) = Inr [] \<and>
   restoreStates [] (saveStates [(''__proto__'', ''x'')] fresh) \<noteq> Inr [(''__proto__'', ''x'')]"
proof -
  have k: "JSON_stringify [''keys''] = ''[\"keys\"]''"
    by (simp add: JSON_stringify_def quote_def quote_char_def)
  have 1: "restoreStates [] (saveStates [(''keys'', ''x'')] fresh) = Inr [(''keys'', JSON_stringify [''keys''])]"
    by (simp add: restoreStates_def getState_saveStates_keys JSON_stringify_nonempty JSON_parse_stringify
        assign_def)
  have 2: "restoreStates [] (saveStates [(''__proto__'', ''x'')] fresh) = Inr []"
    by (simp add: restoreStates_def getState_saveStates_keys JSON_stringify_nonempty JSON_parse_stringify
        assign_def)
  from 1 2 k show ?thesis by simp
qed

text \<open>
  C6, amended: for every mapping of strings to strings without the keys \<^verbatim>\<open>keys\<close> and
  \<^verbatim>\<open>__proto__\<close>, saving it and restoring into an empty mapping gives the same keys
  with the same values, in particular for \<^verbatim>\<open>{a:'1', b:'2'}\<close>; and when no list of keys has
  been saved, \<^verbatim>\<open>restoreStates\<close> returns the mapping it was given and does not throw.
\<close>

theorem states_round_trip:
  "(distinct (map fst states) \<and> ''keys'' \<notin> set (map fst states) \<and>
    ''__proto__'' \<notin> set (map fst states) \<longrightarrow>
      restoreStates [] (saveStates states w) = Inr states) \<and>
   restoreStates [] (saveStates [(''a'', ''1''), (''b'', ''2'')] w) =
     Inr [(''a'', ''1''), (''b'', ''2'')] \<and>
   (saved_state w ''keys'' = None \<longrightarrow> restoreStates states w = Inr states)"
proof (intro conjI impI)
  assume "distinct (map fst states) \<and> ''keys'' \<notin> set (map fst states) \<and>
    ''__proto__'' \<notin> set (map fst states)"
  then show "restoreStates [] (saveStates states w) = Inr states"
    using restore_saved by blast
next
  show "restoreStates [] (saveStates [(''a'', ''1''), (''b'', ''2'')] w) =
     Inr [(''a'', ''1''), (''b'', ''2'')]"
    by (rule restore_saved) simp_all
next
  assume "saved_state w ''keys'' = None"
  then show "restoreStates states w = Inr states"
    by (simp add: restoreStates_def getState_def)
qed

theorem states_round_trip_witness:
  "restoreStates [] (saveStates [(''project'', ''2''), (''branch'', ''review/v2.3.1'')] fresh) =
     Inr [(''project'', ''2''), (''branch'', ''review/v2.3.1'')] \<and>
   restoreStates [(''a'', ''1'')] fresh = Inr [(''a'', ''1'')]"
proof -
  have h: "distinct (map fst [(''project'', ''2''), (''branch'', ''review/v2.3.1'')]) \<and>
      ''keys'' \<notin> set (map fst [(''project'', ''2''), (''branch'', ''review/v2.3.1'')]) \<and>
      ''__proto__'' \<notin> set (map fst [(''project'', ''2''), (''branch'', ''review/v2.3.1'')])"
    by simp
  have n: "saved_state fresh ''keys'' = None"
    by (simp add: fresh_def)
  from states_round_trip [of "[(''project'', ''2''), (''branch'', ''review/v2.3.1'')]" fresh] h
  have 1: "restoreStates [] (saveStates [(''project'', ''2''), (''branch'', ''review/v2.3.1'')] fresh) =
     Inr [(''project'', ''2''), (''branch'', ''review/v2.3.1'')]"
    by blast
  from states_round_trip [of "[(''a'', ''1'')]" fresh] n
  have 2: "restoreStates [(''a'', ''1'')] fresh = Inr [(''a'', ''1'')]"
    by blast
  from 1 2 show ?thesis by blast
qed

end
